theory Spec2Isabelle
  imports Main
begin

section \<open>JavaScript values\<close>

text \<open>
  The methods under \<^verbatim>\<open>src/lib/waterline/methods\<close> are dynamically typed: the
  same positional argument may be an id, a list of ids, a dictionary, a callback or
  nothing at all. Values are therefore one datatype. Numbers are the integers that ids
  are; a function is known by its source text; a live model object is an opaque
  reference to the model of that identity.
\<close>

datatype jsval =
    JUndefined
  | JNull
  | JBool bool
  | JNum int
  | JStr string
  | JArr "jsval list"
  | JObj "(string \<times> jsval) list"
  | JFn string
  | JModel string

type_synonym dict = "(string \<times> jsval) list"

text \<open>Truthiness, as \<^verbatim>\<open>if (x)\<close>, \<^verbatim>\<open>!x\<close> and \<^verbatim>\<open>x || y\<close> read it.\<close>

fun truthy :: "jsval \<Rightarrow> bool" where
  "truthy JUndefined = False"
| "truthy JNull = False"
| "truthy (JBool b) = b"
| "truthy (JNum n) = (n \<noteq> 0)"
| "truthy (JStr s) = (s \<noteq> [])"
| "truthy (JArr xs) = True"
| "truthy (JObj kvs) = True"
| "truthy (JFn f) = True"
| "truthy (JModel m) = True"

definition js_or :: "jsval \<Rightarrow> jsval \<Rightarrow> jsval" where
  "js_or a b = (if truthy a then a else b)"

text \<open>
  A dictionary keeps its keys in insertion order: reading a missing key gives
  \<^verbatim>\<open>undefined\<close>, writing an existing key replaces its value in place, writing a
  new key appends it.
\<close>

definition oget :: "dict \<Rightarrow> string \<Rightarrow> jsval" where
  "oget d k = (case map_of d k of None \<Rightarrow> JUndefined | Some v \<Rightarrow> v)"

fun oset :: "dict \<Rightarrow> string \<Rightarrow> jsval \<Rightarrow> dict" where
  "oset [] k v = [(k, v)]"
| "oset ((k', v') # d) k v = (if k' = k then (k, v) # d else (k', v') # oset d k v)"

definition odelete :: "dict \<Rightarrow> string \<Rightarrow> dict" where
  "odelete d k = filter (\<lambda>p. fst p \<noteq> k) d"

text \<open>Decimal digits of a number, for the keys of an array and for string coercion.\<close>

fun digits :: "nat \<Rightarrow> string" where
  "digits n = (if n < 10 then [''0123456789'' ! n]
               else digits (n div 10) @ [''0123456789'' ! (n mod 10)])"

declare digits.simps [simp del]

definition show_int :: "int \<Rightarrow> string" where
  "show_int i = (if i < 0 then CHR ''-'' # digits (nat (- i)) else digits (nat i))"

fun join_comma :: "string list \<Rightarrow> string" where
  "join_comma [] = []"
| "join_comma [s] = s"
| "join_comma (s # t # ss) = s @ '','' @ join_comma (t # ss)"

text \<open>
  String coercion, as \<^verbatim>\<open>'' + x\<close> and a computed property key \<^verbatim>\<open>o[x]\<close>
  perform it. An array joins its elements with commas, \<^verbatim>\<open>null\<close> and
  \<^verbatim>\<open>undefined\<close> elements as empty strings.
\<close>

fun js_string :: "jsval \<Rightarrow> string" where
  "js_string JUndefined = ''undefined''"
| "js_string JNull = ''null''"
| "js_string (JBool b) = (if b then ''true'' else ''false'')"
| "js_string (JNum i) = show_int i"
| "js_string (JStr s) = s"
| "js_string (JArr xs) =
     join_comma (map (\<lambda>x. if x = JUndefined \<or> x = JNull then [] else js_string x) xs)"
| "js_string (JObj kvs) = ''[object Object]''"
| "js_string (JFn src) = src"
| "js_string (JModel m) = ''[object Object]''"

text \<open>
  The own enumerable entries of a value, as \<^verbatim>\<open>_.extend\<close> copies them: those of a
  dictionary, the indexed elements of an array or string; a primitive has none, and
  those of a function or of a live model are not modelled.
\<close>

definition own_entries :: "jsval \<Rightarrow> dict" where
  "own_entries x =
     (case x of
        JObj kvs \<Rightarrow> kvs
      | JArr xs \<Rightarrow> zip (map digits [0 ..< length xs]) xs
      | JStr s \<Rightarrow> zip (map digits [0 ..< length s]) (map (\<lambda>c. JStr [c]) s)
      | _ \<Rightarrow> [])"

text \<open>\<^verbatim>\<open>_.extend(dst, src)\<close>: every own entry of \<open>src\<close> written into \<open>dst\<close>, in order.\<close>

definition lodash_extend :: "dict \<Rightarrow> jsval \<Rightarrow> dict" where
  "lodash_extend dst src = fold (\<lambda>kv acc. oset acc (fst kv) (snd kv)) (own_entries src) dst"

text \<open>
  The values \<^verbatim>\<open>_.each(x, f)\<close> visits, in order: the elements of an array, the
  characters of a string, the values of a dictionary; nothing for a primitive. Those
  of a function or of a live model are not modelled.
\<close>

definition each_values :: "jsval \<Rightarrow> jsval list" where
  "each_values x =
     (case x of
        JArr xs \<Rightarrow> xs
      | JStr s \<Rightarrow> map (\<lambda>c. JStr [c]) s
      | JObj kvs \<Rightarrow> map snd kvs
      | _ \<Rightarrow> [])"

text \<open>
  \<^verbatim>\<open>x[k]\<close>: reading a property of \<^verbatim>\<open>undefined\<close> or \<^verbatim>\<open>null\<close>
  throws a TypeError (\<open>None\<close>). An array or string has its length and its indexed
  elements; the properties of a function or of a live model are not modelled.
\<close>

definition js_get :: "jsval \<Rightarrow> string \<Rightarrow> jsval option" where
  "js_get x k =
     (case x of
        JUndefined \<Rightarrow> None
      | JNull \<Rightarrow> None
      | JObj kvs \<Rightarrow> Some (oget kvs k)
      | JArr xs \<Rightarrow>
          Some (if k = ''length'' then JNum (int (length xs)) else oget (own_entries x) k)
      | JStr s \<Rightarrow>
          Some (if k = ''length'' then JNum (int (length s)) else oget (own_entries x) k)
      | _ \<Rightarrow> Some JUndefined)"

text \<open>
  \<^verbatim>\<open>delete x[k]\<close>: a TypeError (\<open>None\<close>) on \<^verbatim>\<open>undefined\<close> or
  \<^verbatim>\<open>null\<close>; the key removed from a dictionary; any other value is left as it is.
\<close>

definition js_delete :: "jsval \<Rightarrow> string \<Rightarrow> jsval option" where
  "js_delete x k =
     (case x of
        JUndefined \<Rightarrow> None
      | JNull \<Rightarrow> None
      | JObj kvs \<Rightarrow> Some (JObj (odelete kvs k))
      | _ \<Rightarrow> Some x)"

text \<open>
  \<^verbatim>\<open>s.toLowerCase()\<close> on the ASCII letters that model identities are written
  in: a capital letter (codes 65 to 90) becomes the letter 32 above it, which differs
  from it in one bit.
\<close>

definition lower_char :: "char \<Rightarrow> char" where
  "lower_char c =
     (if 65 \<le> (of_char c :: nat) \<and> (of_char c :: nat) \<le> 90 then
        (case c of Char b0 b1 b2 b3 b4 b5 b6 b7 \<Rightarrow> Char b0 b1 b2 b3 b4 True b6 b7)
      else c)"

definition toLowerCase :: "string \<Rightarrow> string" where
  "toLowerCase s = map lower_char s"

text \<open>Error objects, by name and message.\<close>

definition TypeError :: "string \<Rightarrow> jsval" where
  "TypeError msg = JObj [(''name'', JStr ''TypeError''), (''message'', JStr msg)]"

definition AssertionError :: "string \<Rightarrow> jsval" where
  "AssertionError msg = JObj [(''name'', JStr ''AssertionError''), (''message'', JStr msg)]"

text \<open>\<^verbatim>\<open>flaverr({ name: 'UsageError' }, new Error(msg))\<close>.\<close>

definition UsageError :: "string \<Rightarrow> jsval" where
  "UsageError msg = JObj [(''name'', JStr ''UsageError''), (''message'', JStr msg)]"

text \<open>\<^verbatim>\<open>new Error(msg)\<close>.\<close>

definition Error :: "string \<Rightarrow> jsval" where
  "Error msg = JObj [(''name'', JStr ''Error''), (''message'', JStr msg)]"

definition newline :: string where
  "newline = [CHR 0x0A]"

section \<open>Model descriptors and query descriptions\<close>

text \<open>
  An attribute definition of a model's schema, as waterline-schema leaves it: the keys
  the methods read. \<open>None\<close> is a key the definition does not have.
\<close>

record attrdef =
  ad_collection :: "string option"
  ad_referenceIdentity :: "string option"
  ad_via :: "string option"
  ad_on :: "string option"
  ad_references :: "string option"
  ad_columnName :: "string option"

text \<open>
  A live model (\<^verbatim>\<open>WLModel\<close>, \<^verbatim>\<open>WLChild\<close>). The live model inherits
  \<^verbatim>\<open>identity\<close>, \<^verbatim>\<open>junctionTable\<close> and \<^verbatim>\<open>throughTable\<close> from its
  prototype, where the source looks for them with \<^verbatim>\<open>Object.getPrototypeOf\<close>;
  \<open>None\<close> is a property the prototype does not have. \<open>m_adapter\<close> lists the methods
  the model's adapter implements.
\<close>

record wlmodel =
  m_identity :: string
  m_primaryKey :: string
  m_junctionTable :: "jsval option"
  m_throughTable :: "(string \<times> string) list option"
  m_schema :: "(string \<times> attrdef) list"
  m_datastore :: string
  m_adapter :: "string list"

text \<open>\<^verbatim>\<open>orm.collections\<close>: the live models by identity.\<close>

record orm =
  collections :: "string \<Rightarrow> wlmodel option"

text \<open>
  The query description (\<^verbatim>\<open>IQuery\<close>): \<^verbatim>\<open>method\<close> and \<^verbatim>\<open>using\<close> are set
  when it is built, the other keys by the method's argument handling; a key that was
  never set reads \<^verbatim>\<open>undefined\<close>.
\<close>

record query =
  q_method :: string
  q_using :: string
  q_criteria :: jsval
  q_populates :: jsval
  q_newRecord :: jsval
  q_targetRecordIds :: jsval
  q_collectionAttrName :: jsval
  q_associatedIds :: jsval
  q_meta :: jsval

definition new_query :: "string \<Rightarrow> string \<Rightarrow> query" where
  "new_query meth ident =
     \<lparr> q_method = meth, q_using = ident, q_criteria = JUndefined,
       q_populates = JUndefined, q_newRecord = JUndefined,
       q_targetRecordIds = JUndefined, q_collectionAttrName = JUndefined,
       q_associatedIds = JUndefined, q_meta = JUndefined \<rparr>"

text \<open>
  \<^verbatim>\<open>forgeStageTwoQuery(query, orm)\<close> is required from
  \<^verbatim>\<open>../utils/query/forge-stage-two-query\<close> and is a parameter of every method:
  it rewrites the query in place and either returns or throws an error object, so
  its result is the error thrown (if any) and the query as it left it.
\<close>

type_synonym forger = "query \<Rightarrow> dict option \<times> query"

section \<open>Operations on other models, and what a run leaves behind\<close>

text \<open>
  What a method calls outside itself: the methods of a model and \<^verbatim>\<open>helpFind\<close>,
  called with a callback, each with the model it is called on and its arguments (the
  \<^verbatim>\<open>meta\<close> last); the forging of stage three; the adapter's \<^verbatim>\<open>count\<close>,
  called with the datastore and the physical query.
\<close>

datatype call =
    Destroy wlmodel jsval jsval
  | CreateEach wlmodel jsval jsval
  | Update wlmodel jsval jsval jsval
  | FindOne wlmodel jsval jsval
  | Create wlmodel jsval jsval
  | HelpFind wlmodel query
  | ForgeStageThree query
  | AdapterCount string query

text \<open>
  A run is the list of what happened, in order: an operation was issued, an operation
  called back with its arguments \<^verbatim>\<open>(err, result)\<close>, the method's own callback
  \<^verbatim>\<open>done\<close> was invoked with its arguments, or an exception left the method
  uncaught.
\<close>

datatype event =
    Issued call
  | Completed call "jsval list"
  | Handler "jsval list"
  | Uncaught jsval

text \<open>
  The environment answers the \<open>n\<close>-th operation a run issues (counted from 0) with
  the arguments of its callback.
\<close>

type_synonym world = "nat \<Rightarrow> call \<Rightarrow> jsval list"

definition errOf :: "jsval list \<Rightarrow> jsval" where
  "errOf r = (case r of [] \<Rightarrow> JUndefined | e # _ \<Rightarrow> e)"

definition resultOf :: "jsval list \<Rightarrow> jsval" where
  "resultOf r = (case r of e # v # _ \<Rightarrow> v | _ \<Rightarrow> JUndefined)"

definition call_meta :: "call \<Rightarrow> jsval" where
  "call_meta c =
     (case c of
        Destroy m cr mt \<Rightarrow> mt
      | CreateEach m rs mt \<Rightarrow> mt
      | Update m cr vs mt \<Rightarrow> mt
      | FindOne m cr mt \<Rightarrow> mt
      | Create m r mt \<Rightarrow> mt
      | HelpFind m q \<Rightarrow> q_meta q
      | ForgeStageThree q \<Rightarrow> q_meta q
      | AdapterCount ds q \<Rightarrow> q_meta q)"

section \<open>replaceCollection\<close>

subsection \<open>Argument handling and deferred execution\<close>

text \<open>\<^verbatim>\<open>args[i]\<close>: an index past the arguments reads \<^verbatim>\<open>undefined\<close>.\<close>

definition arg :: "jsval list \<Rightarrow> nat \<Rightarrow> jsval" where
  "arg args i = (if i < length args then args ! i else JUndefined)"

text \<open>
  \<^verbatim>\<open>_handleVariadicUsage\<close> of \<^verbatim>\<open>MethodReplaceCollection.execute\<close>
  (replace-collection.ts, lines 127-161): it fills the query from \<^verbatim>\<open>args\<close>
  and locates \<^verbatim>\<open>explicitCbMaybe\<close>, which it returns with the query.
\<close>

definition replaceCollection_handleVariadicUsage :: "jsval list \<Rightarrow> query \<Rightarrow> query \<times> jsval" where
  "replaceCollection_handleVariadicUsage args query =
     (let query1 = query \<lparr> q_targetRecordIds := arg args 0,
                           q_collectionAttrName := arg args 1 \<rparr>;
          is3rdArgArray = (arg args 2 \<noteq> JUndefined);
          query2 = (if is3rdArgArray then query1 \<lparr> q_associatedIds := arg args 2 \<rparr> else query1);
          explicitCbMaybe = (if is3rdArgArray then arg args 3 else arg args 2);
          meta = (if is3rdArgArray then arg args 4 else arg args 3);
          query3 = (if meta \<noteq> JUndefined then query2 \<lparr> q_meta := meta \<rparr> else query2)
      in (query3, explicitCbMaybe))"

text \<open>
  What a call of \<^verbatim>\<open>execute\<close> comes to: the method ran at once, its
  \<^verbatim>\<open>done\<close> being the explicit callback (the \<open>Handler\<close> events of the run are the
  calls of that function); or a Deferred holding the query was returned and nothing
  ran; or what was passed on as the explicit callback is no function.
\<close>

datatype invocation =
    RanNow string "event list"
  | Deferred query
  | NotACallback jsval

text \<open>
  Modelled from the spec: \<^verbatim>\<open>parley\<close> is a third-party module. Section 4.1: with
  a result handler the operation runs immediately and the handler receives the
  outcome; with none, a builder object is returned and the operation is deferred.
\<close>

definition parley :: "event list \<Rightarrow> jsval \<Rightarrow> query \<Rightarrow> invocation" where
  "parley run explicitCbMaybe query =
     (case explicitCbMaybe of
        JFn f \<Rightarrow> RanNow f run
      | JUndefined \<Rightarrow> Deferred query
      | v \<Rightarrow> NotACallback v)"

subsection \<open>Usage errors of stage two\<close>

text \<open>The \<^verbatim>\<open>catch\<close> of the stage-two forging (lines 208-263).\<close>

definition replaceCollection_catch :: "dict \<Rightarrow> event list" where
  "replaceCollection_catch e =
     (let code = oget e ''code'';
          details = ''Details:'' @ newline @ ''  '' @ js_string (oget e ''details'') @ newline
      in if code = JStr ''E_INVALID_TARGET_RECORD_IDS'' then
           [Handler [UsageError
             (''The target record ids (i.e. first argument) passed to `.replaceCollection()` '' @
              ''should be the ID (or IDs) of target records whose collection will be modified.'' @
              newline @ details)]]
         else if code = JStr ''E_INVALID_COLLECTION_ATTR_NAME'' then
           [Handler [UsageError
             (''The collection attr name (i.e. second argument) to `.replaceCollection()` should '' @
              ''be the name of a collection association from this model.'' @
              newline @ details)]]
         else if code = JStr ''E_INVALID_ASSOCIATED_IDS'' then
           [Handler [UsageError
             (''The associated ids (i.e. using `.members()`, or the third argument) passed to `.replaceCollection()` should be '' @
              ''the ID (or IDs) of associated records to use.'' @
              newline @ details)]]
         else if code = JStr ''E_NOOP'' then [Handler []]
         else if code = JStr ''E_INVALID_META'' then [Handler [JObj e]]
         else [Handler [JObj e]])"

subsection \<open>Resolving the association\<close>

text \<open>
  The callback of the self-calling function that talks to the databases (lines
  528-536): \<^verbatim>\<open>done(err)\<close> on an error, \<^verbatim>\<open>done()\<close> with no result otherwise.
\<close>

definition proceed :: "jsval \<Rightarrow> event list" where
  "proceed err = (if truthy err then [Handler [err]] else [Handler []])"

definition has_junctionTable :: "wlmodel \<Rightarrow> bool" where
  "has_junctionTable m = (case m_junctionTable m of None \<Rightarrow> False | Some v \<Rightarrow> truthy v)"

definition has_throughTable_keys :: "wlmodel \<Rightarrow> bool" where
  "has_throughTable_keys m =
     (case m_throughTable m of None \<Rightarrow> False | Some t \<Rightarrow> length (map fst t) \<noteq> 0)"

text \<open>
  Lines 287-304: the \<^verbatim>\<open>manyToMany\<close> flag and the child model. \<open>ri\<close> is
  \<^verbatim>\<open>schemaDef.referenceIdentity\<close>, \<open>WLChild0\<close> the model
  \<^verbatim>\<open>orm.collections[schemaDef.collection]\<close>. When the referenced model is not
  in \<^verbatim>\<open>orm.collections\<close>, \<^verbatim>\<open>Object.getPrototypeOf(undefined)\<close> throws (\<open>None\<close>).
\<close>

definition classify :: "orm \<Rightarrow> string \<Rightarrow> wlmodel \<Rightarrow> (bool \<times> wlmodel) option" where
  "classify orm ri WLChild0 =
     (let manyToMany0 = False;
          manyToMany1 = (if ri \<noteq> m_identity WLChild0 then True else manyToMany0);
          child = (if ri \<noteq> m_identity WLChild0 then collections orm ri else Some WLChild0)
      in case child of
           None \<Rightarrow> None
         | Some WLChild \<Rightarrow>
             (let manyToMany2 = (if has_junctionTable WLChild then True else manyToMany1);
                  manyToMany3 = (if has_throughTable_keys WLChild then True else manyToMany2)
              in Some (manyToMany3, WLChild)))"

datatype resolution =
    ProceedErr jsval
  | Thrown jsval
  | Resolved wlmodel attrdef wlmodel bool

definition not_normalized :: "string \<Rightarrow> string \<Rightarrow> jsval" where
  "not_normalized what v =
     AssertionError (''`'' @ what @ ''` (identity) should have already been normalized before getting here!  But it was not: '' @ v)"

text \<open>
  Lines 271-304: the parent model, the schema definition of the collection attribute,
  the child model and the flag; \<open>ProceedErr\<close> where an assertion (or a TypeError
  inside the same \<^verbatim>\<open>try\<close>) ends in \<^verbatim>\<open>proceed(e)\<close>, \<open>Thrown\<close> where a TypeError
  is raised outside every \<^verbatim>\<open>try\<close>.
\<close>

definition resolveAssociation :: "orm \<Rightarrow> query \<Rightarrow> resolution" where
  "resolveAssociation orm q =
     (if toLowerCase (q_using q) \<noteq> q_using q then
        ProceedErr (not_normalized ''query.using'' (q_using q))
      else case collections orm (q_using q) of
        None \<Rightarrow> Thrown (TypeError ''Cannot read property schema of undefined'')
      | Some WLModel \<Rightarrow>
         (case map_of (m_schema WLModel) (js_string (q_collectionAttrName q)) of
            None \<Rightarrow> Thrown (TypeError ''Cannot read property collection of undefined'')
          | Some schemaDef \<Rightarrow>
             (case ad_collection schemaDef of
                None \<Rightarrow> ProceedErr (TypeError ''Cannot read property toLowerCase of undefined'')
              | Some coll \<Rightarrow>
                 if toLowerCase coll \<noteq> coll then
                   ProceedErr (not_normalized ''schemaDef.collection'' coll)
                 else
                  (case ad_referenceIdentity schemaDef of
                     None \<Rightarrow> ProceedErr (TypeError ''Cannot read property toLowerCase of undefined'')
                   | Some ri \<Rightarrow>
                      if toLowerCase ri \<noteq> ri then
                        ProceedErr (not_normalized ''schemaDef.referenceIdentity'' ri)
                      else
                       (case collections orm coll of
                          None \<Rightarrow> ProceedErr (TypeError ''Cannot convert undefined or null to object'')
                        | Some WLChild0 \<Rightarrow>
                           if toLowerCase (m_identity WLChild0) \<noteq> m_identity WLChild0 then
                             ProceedErr (not_normalized ''Object.getPrototypeOf(WLChild).identity''
                                           (m_identity WLChild0))
                           else
                            (case classify orm ri WLChild0 of
                               None \<Rightarrow> Thrown (TypeError ''Cannot convert undefined or null to object'')
                             | Some (manyToMany, WLChild) \<Rightarrow>
                                 Resolved WLModel schemaDef WLChild manyToMany))))))"

text \<open>
  Line 309: a shallow clone of the query's \<^verbatim>\<open>meta\<close> with
  \<^verbatim>\<open>skipAllLifecycleCallbacks: true\<close> written over it.
\<close>

definition replaceCollection_modifiedMeta :: "query \<Rightarrow> dict" where
  "replaceCollection_modifiedMeta q =
     lodash_extend (lodash_extend [] (js_or (q_meta q) (JObj [])))
            (JObj [(''skipAllLifecycleCallbacks'', JBool True)])"

subsection \<open>The many-to-many expansion\<close>

text \<open>A property key computed from a reference that may still be \<^verbatim>\<open>undefined\<close>.\<close>

definition key_of :: "string option \<Rightarrow> string" where
  "key_of r = (case r of None \<Rightarrow> ''undefined'' | Some k \<Rightarrow> k)"

text \<open>
  \<^verbatim>\<open>_.each(dictionary, function (v, key) { if (P(v)) { ref = key; } })\<close>: the
  reference ends as the last key whose value passes.
\<close>

definition last_key_where :: "('v \<Rightarrow> bool) \<Rightarrow> (string \<times> 'v) list \<Rightarrow> string option" where
  "last_key_where P kvs = fold (\<lambda>kv acc. if P (snd kv) then Some (fst kv) else acc) kvs None"

text \<open>Lines 336-383: the parent and the child reference of the join model.\<close>

definition findReferences :: "wlmodel \<Rightarrow> query \<Rightarrow> attrdef \<Rightarrow> wlmodel \<Rightarrow> string option \<times> string option" where
  "findReferences WLModel q schemaDef WLChild =
     (let mine = m_identity WLModel @ ''.'' @ js_string (q_collectionAttrName q);
          parentReference =
            (if has_junctionTable WLChild then
               last_key_where
                 (\<lambda>d. ad_references d \<noteq> None \<and> ad_columnName d \<noteq> None \<and>
                      ad_columnName d = ad_on schemaDef)
                 (m_schema WLChild)
             else case m_throughTable WLChild of
               Some t \<Rightarrow> fold (\<lambda>kv acc. if fst kv \<noteq> mine then Some (snd kv) else acc) t None
             | None \<Rightarrow> None);
          childReference =
            (if has_junctionTable WLChild then
               last_key_where
                 (\<lambda>d. ad_references d \<noteq> None \<and> ad_columnName d \<noteq> None \<and>
                      ad_columnName d \<noteq> ad_on schemaDef)
                 (m_schema WLChild)
             else case m_throughTable WLChild of
               Some t \<Rightarrow> map_of t mine
             | None \<Rightarrow> None)
      in (parentReference, childReference))"

text \<open>Lines 408-418: one record per target id and associated id, target ids outermost.\<close>

definition insertRecords :: "string option \<Rightarrow> string option \<Rightarrow> query \<Rightarrow> jsval list" where
  "insertRecords parentReference childReference q =
     concat (map (\<lambda>targetId.
               map (\<lambda>associatedId.
                      JObj (oset (oset [] (key_of parentReference) targetId)
                                 (key_of childReference) associatedId))
                   (each_values (q_associatedIds q)))
             (each_values (q_targetRecordIds q)))"

text \<open>Lines 392-398.\<close>

definition criteriaOfDestruction :: "string option \<Rightarrow> query \<Rightarrow> jsval" where
  "criteriaOfDestruction parentReference q =
     JObj [(''where'', JObj [(key_of parentReference, JObj [(''in'', q_targetRecordIds q)])])]"

text \<open>
  Lines 329-440: the destroy, and in its callback the \<^verbatim>\<open>createEach\<close> unless the
  destroy failed or there is nothing to insert. Reading \<^verbatim>\<open>.length\<close> of a
  missing \<^verbatim>\<open>associatedIds\<close> throws inside that callback.
\<close>

definition runManyToMany :: "world \<Rightarrow> wlmodel \<Rightarrow> query \<Rightarrow> attrdef \<Rightarrow> wlmodel \<Rightarrow> dict \<Rightarrow> event list" where
  "runManyToMany w WLModel q schemaDef WLChild modifiedMeta0 =
     (let refs = findReferences WLModel q schemaDef WLChild;
          parentReference = fst refs;
          childReference = snd refs;
          modifiedMeta = oset modifiedMeta0 ''fetch'' (JBool False);
          destroy = Destroy WLChild (criteriaOfDestruction parentReference q) (JObj modifiedMeta);
          r = w 0 destroy
      in [Issued destroy, Completed destroy r] @
         (if truthy (errOf r) then proceed (errOf r)
          else case js_get (q_associatedIds q) ''length'' of
            None \<Rightarrow> [Uncaught (TypeError ''Cannot read property length of undefined'')]
          | Some len \<Rightarrow>
             if \<not> truthy len then proceed JNull
             else
              (let createEach = CreateEach WLChild
                                  (JArr (insertRecords parentReference childReference q))
                                  (JObj modifiedMeta);
                   r2 = w 1 createEach
               in [Issued createEach, Completed createEach r2] @ proceed (errOf r2))))"

subsection \<open>The one-to-many expansion\<close>

text \<open>Lines 466-476.\<close>

definition nullOutCriteria :: "attrdef \<Rightarrow> query \<Rightarrow> jsval" where
  "nullOutCriteria schemaDef q =
     JObj [(''where'', JObj [(key_of (ad_via schemaDef), JObj [(''in'', q_targetRecordIds q)])])]"

definition nullOutValues :: "attrdef \<Rightarrow> jsval" where
  "nullOutValues schemaDef = JObj [(key_of (ad_via schemaDef), JNull)]"

text \<open>
  Lines 483-504: one update query per target id and associated id, as the pair of
  its criteria and its values to set.
\<close>

definition updateQueries :: "attrdef \<Rightarrow> wlmodel \<Rightarrow> query \<Rightarrow> (jsval \<times> jsval) list" where
  "updateQueries schemaDef WLChild q =
     concat (map (\<lambda>targetId.
               map (\<lambda>associatedId.
                      (JObj [(''where'', JObj [(m_primaryKey WLChild, associatedId)])],
                       JObj [(key_of (ad_via schemaDef), targetId)]))
                   (each_values (q_associatedIds q)))
             (each_values (q_targetRecordIds q)))"

text \<open>
  Modelled from the spec: \<^verbatim>\<open>async.each\<close> is a third-party module. Section 4.4,
  step 4, and section 5: every operation is dispatched at once, they complete in no
  fixed order, and the final callback fires exactly once, upon the first failure or
  after all have succeeded. The schedule \<open>sched\<close> lists the operations (by position)
  in the order in which they call back. \<open>drain\<close> keeps \<^verbatim>\<open>async\<close>'s count of the
  operations that succeeded and whether the final callback has fired.
\<close>

fun drain :: "(jsval \<Rightarrow> event list) \<Rightarrow> call list \<Rightarrow> jsval list list \<Rightarrow> nat list \<Rightarrow> bool \<Rightarrow> nat \<Rightarrow> event list" where
  "drain cb cs rs [] fired completed = []"
| "drain cb cs rs (i # sched) fired completed =
     (if i < length cs then
        Completed (cs ! i) (rs ! i) #
        (if truthy (errOf (rs ! i)) then
           (if fired then [] else cb (errOf (rs ! i))) @ drain cb cs rs sched True completed
         else if Suc completed = length cs then
           (if fired then [] else cb JNull) @ drain cb cs rs sched True (Suc completed)
         else drain cb cs rs sched fired (Suc completed))
      else drain cb cs rs sched fired completed)"

text \<open>
  Modelled from the spec: \<^verbatim>\<open>async.each(coll, iteratee, callback)\<close> itself. An
  empty collection calls back at once; otherwise every operation is issued, in order,
  and then they call back as scheduled. The \<open>i\<close>-th operation is the
  \<open>(n0 + i)\<close>-th of the run.
\<close>

definition async_each :: "world \<Rightarrow> nat \<Rightarrow> nat list \<Rightarrow> call list \<Rightarrow> (jsval \<Rightarrow> event list) \<Rightarrow> event list" where
  "async_each w n0 sched cs cb =
     (if cs = [] then cb JNull
      else map Issued cs @
           drain cb cs (map (\<lambda>i. w (n0 + i) (cs ! i)) [0 ..< length cs]) sched False 0)"

text \<open>
  Lines 466-526: the update that nulls out the foreign key, and in its callback the
  updates of the pairs, handed to \<^verbatim>\<open>async.each\<close>.
\<close>

definition pairUpdates :: "attrdef \<Rightarrow> wlmodel \<Rightarrow> query \<Rightarrow> dict \<Rightarrow> call list" where
  "pairUpdates schemaDef WLChild q modifiedMeta =
     map (\<lambda>updateQuery. Update WLChild (fst updateQuery) (snd updateQuery) (JObj modifiedMeta))
         (updateQueries schemaDef WLChild q)"

definition nullOutUpdate :: "attrdef \<Rightarrow> wlmodel \<Rightarrow> query \<Rightarrow> dict \<Rightarrow> call" where
  "nullOutUpdate schemaDef WLChild q modifiedMeta =
     Update WLChild (nullOutCriteria schemaDef q) (nullOutValues schemaDef) (JObj modifiedMeta)"

definition runOneToMany :: "world \<Rightarrow> nat list \<Rightarrow> query \<Rightarrow> attrdef \<Rightarrow> wlmodel \<Rightarrow> dict \<Rightarrow> event list" where
  "runOneToMany w sched q schemaDef WLChild modifiedMeta =
     (let nullOut = nullOutUpdate schemaDef WLChild q modifiedMeta;
          r = w 0 nullOut
      in [Issued nullOut, Completed nullOut r] @
         (if truthy (errOf r) then proceed (errOf r)
          else async_each w 1 sched (pairUpdates schemaDef WLChild q modifiedMeta) proceed))"

subsection \<open>The method\<close>

text \<open>
  The function handed to \<^verbatim>\<open>parley\<close> (lines 189-538): stage two, then the
  expansion of the association.
\<close>

definition replaceCollection_handler :: "forger \<Rightarrow> world \<Rightarrow> nat list \<Rightarrow> orm \<Rightarrow> query \<Rightarrow> event list" where
  "replaceCollection_handler forge w sched orm query =
     (case forge query of
        (Some e, q) \<Rightarrow> replaceCollection_catch e
      | (None, q) \<Rightarrow>
         (case resolveAssociation orm q of
            ProceedErr e \<Rightarrow> proceed e
          | Thrown e \<Rightarrow> [Uncaught e]
          | Resolved WLModel schemaDef WLChild manyToMany \<Rightarrow>
              if manyToMany then
                runManyToMany w WLModel q schemaDef WLChild (replaceCollection_modifiedMeta q)
              else
                runOneToMany w sched q schemaDef WLChild (replaceCollection_modifiedMeta q)))"

text \<open>
  \<^verbatim>\<open>MethodReplaceCollection.execute(obj, targetRecordIds?, collectionAttrName?,
  associatedIds?, explicitCbMaybe?, meta?)\<close>. \<open>rest\<close> are the arguments after
  \<^verbatim>\<open>obj\<close>. The source reads its arguments through \<^verbatim>\<open>var args = arguments\<close>,
  the list of all of them: \<^verbatim>\<open>obj\<close> is its first element.
\<close>

definition replaceCollection_execute :: "forger \<Rightarrow> world \<Rightarrow> nat list \<Rightarrow> orm \<Rightarrow> wlmodel \<Rightarrow> jsval list \<Rightarrow> invocation" where
  "replaceCollection_execute forge w sched orm obj rest =
     (let args = JModel (m_identity obj) # rest;
          built = replaceCollection_handleVariadicUsage args
                    (new_query ''replaceCollection'' (m_identity obj));
          query = fst built;
          explicitCbMaybe = snd built
      in parley (replaceCollection_handler forge w sched orm query) explicitCbMaybe query)"

section \<open>find\<close>

text \<open>The \<^verbatim>\<open>catch\<close> of the stage-two forging in \<^verbatim>\<open>MethodFind.execute\<close> (find.ts, lines 181-218).\<close>

definition find_catch :: "dict \<Rightarrow> event list" where
  "find_catch e =
     (let code = oget e ''code'';
          details = ''Details:'' @ newline @ ''  '' @ js_string (oget e ''details'') @ newline
      in if code = JStr ''E_INVALID_CRITERIA'' then
           [Handler [UsageError (''Invalid criteria.'' @ newline @ details)]]
         else if code = JStr ''E_INVALID_POPULATES'' then
           [Handler [UsageError (''Invalid populate(s).'' @ newline @ details)]]
         else if code = JStr ''E_NOOP'' then [Handler [JUndefined, JArr []]]
         else [Handler [JObj e]])"

text \<open>
  The function handed to \<^verbatim>\<open>parley\<close> (find.ts, lines 162-299). Both lifecycle
  callbacks are placeholders that pass their argument on. \<^verbatim>\<open>helpFind\<close> forges
  the stage-three queries and talks to the adapters; it is an operation of the
  environment. \<^verbatim>\<open>processAllRecords\<close> is a parameter: it checks the records in
  place and either throws (\<open>Inl\<close>) or leaves them (\<open>Inr\<close>).
\<close>

definition find_handler ::
  "forger \<Rightarrow> world \<Rightarrow> (jsval \<Rightarrow> jsval \<Rightarrow> string \<Rightarrow> jsval + jsval) \<Rightarrow> wlmodel \<Rightarrow> query \<Rightarrow> event list" where
  "find_handler forge w processAllRecords WLModel query =
     (case forge query of
        (Some e, q) \<Rightarrow> find_catch e
      | (None, q) \<Rightarrow>
         (let helpFind = HelpFind WLModel q;
              r = w 0 helpFind
          in [Issued helpFind, Completed helpFind r] @
             (if truthy (errOf r) then [Handler [errOf r]]
              else case processAllRecords (resultOf r) (q_meta q) (m_identity WLModel) of
                Inl e \<Rightarrow> [Handler [e]]
              | Inr populatedRecords \<Rightarrow> [Handler [JUndefined, populatedRecords]])))"

section \<open>count\<close>

text \<open>The \<^verbatim>\<open>catch\<close> of the stage-two forging in \<^verbatim>\<open>MethodCount.execute\<close>.\<close>

definition count_catch :: "dict \<Rightarrow> event list" where
  "count_catch e =
     (let code = oget e ''code''
      in if code = JStr ''E_INVALID_CRITERIA'' \<or> code = JStr ''E_INVALID_META'' then
           [Handler [JObj e]]
         else if code = JStr ''E_NOOP'' then [Handler [JUndefined, JNum 0]]
         else [Handler [JObj e]])"

text \<open>
  The function handed to \<^verbatim>\<open>parley\<close> by \<^verbatim>\<open>MethodCount.execute\<close>: stage
  two, stage three, the adapter. \<^verbatim>\<open>forgeStageThreeQuery\<close> is a parameter that
  throws (\<open>Inl\<close>) or returns the physical query; calling it is recorded in the run.
  \<^verbatim>\<open>forgeAdapterError\<close> is a parameter too.
\<close>

definition count_handler ::
  "forger \<Rightarrow> (query \<Rightarrow> jsval + query) \<Rightarrow> (jsval \<Rightarrow> string \<Rightarrow> jsval) \<Rightarrow> world \<Rightarrow> wlmodel \<Rightarrow> query \<Rightarrow> event list" where
  "count_handler forge forgeStageThreeQuery forgeAdapterError w WLModel query =
     (case forge query of
        (Some e, q) \<Rightarrow> count_catch e
      | (None, q) \<Rightarrow>
         Issued (ForgeStageThree q) #
         (case forgeStageThreeQuery q of
            Inl e \<Rightarrow> [Handler [e]]
          | Inr q3 \<Rightarrow>
             if ''count'' \<notin> set (m_adapter WLModel) then
               [Handler [Error (''The adapter used by this model (`'' @ m_identity WLModel @
                                ''`) doesn't support the `'' @ q_method q3 @ ''` method.'')]]
             else
              (let count = AdapterCount (m_datastore WLModel) q3;
                   r = w 0 count
               in [Issued count, Completed count r] @
                  (if truthy (errOf r) then
                     [Handler [forgeAdapterError (errOf r) (m_identity WLModel)]]
                   else [Handler [JUndefined, resultOf r]]))))"

section \<open>findOrCreate\<close>

definition STD_NOOP_CRITERIA :: jsval where
  "STD_NOOP_CRITERIA = JObj [(''where'', JObj [(''or'', JArr [])])]"

text \<open>
  Lines 538-540 of find.ts: the \<^verbatim>\<open>limit\<close>, \<^verbatim>\<open>skip\<close> and \<^verbatim>\<open>sort\<close>
  clauses deleted from the criteria.
\<close>

definition delete_paging :: "jsval \<Rightarrow> jsval option" where
  "delete_paging criteria =
     (case js_delete criteria ''limit'' of
        None \<Rightarrow> None
      | Some c1 \<Rightarrow>
         (case js_delete c1 ''skip'' of
            None \<Rightarrow> None
          | Some c2 \<Rightarrow> js_delete c2 ''sort''))"

text \<open>Line 574: a shallow clone of the query's \<^verbatim>\<open>meta\<close> that also has \<^verbatim>\<open>fetch: true\<close>.\<close>

definition findOrCreate_modifiedMeta :: "query \<Rightarrow> dict" where
  "findOrCreate_modifiedMeta q =
     lodash_extend (lodash_extend [] (js_or (q_meta q) (JObj [])))
                   (JObj [(''fetch'', JBool True)])"

text \<open>
  Lines 536-595: the \<^verbatim>\<open>findOne\<close> and, in its callback, the \<^verbatim>\<open>create\<close>
  unless a record was found. The primary key is deleted from the new record when its
  value is \<^verbatim>\<open>null\<close>.
\<close>

definition findOrCreate_run :: "world \<Rightarrow> wlmodel \<Rightarrow> query \<Rightarrow> event list" where
  "findOrCreate_run w WLModel q =
     (case delete_paging (q_criteria q) of
        None \<Rightarrow> [Uncaught (TypeError ''Cannot convert undefined or null to object'')]
      | Some criteria \<Rightarrow>
         (let findOne = FindOne WLModel criteria (q_meta q);
              r = w 0 findOne
          in [Issued findOne, Completed findOne r] @
             (if truthy (errOf r) then [Handler [errOf r]]
              else if truthy (resultOf r) then [Handler [JUndefined, resultOf r, JBool False]]
              else case js_get (q_newRecord q) (m_primaryKey WLModel) of
                None \<Rightarrow> [Uncaught (TypeError ''Cannot read property of undefined'')]
              | Some pkValue \<Rightarrow>
                 (let wasPKValueCoercedToNull = (pkValue = JNull);
                      newRecord =
                        (if wasPKValueCoercedToNull then
                           (case js_delete (q_newRecord q) (m_primaryKey WLModel) of
                              None \<Rightarrow> q_newRecord q
                            | Some rec \<Rightarrow> rec)
                         else q_newRecord q);
                      create = Create WLModel newRecord (JObj (findOrCreate_modifiedMeta q));
                      r2 = w 1 create
                  in [Issued create, Completed create r2] @
                     (if truthy (errOf r2) then [Handler [errOf r2]]
                      else [Handler [JUndefined, resultOf r2, JBool True]])))))"

text \<open>
  The function handed to \<^verbatim>\<open>parley\<close> by \<^verbatim>\<open>MethodFindOrCreate.execute\<close>
  (find.ts, lines 474-596). On \<^verbatim>\<open>E_NOOP\<close> the criteria are replaced and the
  method goes on.
\<close>

definition findOrCreate_handler :: "forger \<Rightarrow> world \<Rightarrow> wlmodel \<Rightarrow> query \<Rightarrow> event list" where
  "findOrCreate_handler forge w WLModel query =
     (case forge query of
        (Some e, q) \<Rightarrow>
         (let code = oget e ''code'';
              details = ''Details:'' @ newline @ ''  '' @ js_string (oget e ''details'') @ newline
          in if code = JStr ''E_INVALID_CRITERIA'' then
               [Handler [UsageError (''Invalid criteria.'' @ newline @ details)]]
             else if code = JStr ''E_INVALID_NEW_RECORDS'' then
               [Handler [UsageError (''Invalid new record(s).'' @ newline @ details)]]
             else if code = JStr ''E_NOOP'' then
               findOrCreate_run w WLModel (q \<lparr> q_criteria := STD_NOOP_CRITERIA \<rparr>)
             else [Handler [JObj e]])
      | (None, q) \<Rightarrow> findOrCreate_run w WLModel q)"

section \<open>Stage two, from the specification\<close>

text \<open>
  Modelled from the spec: \<^verbatim>\<open>forgeStageTwoQuery\<close>
  (\<^verbatim>\<open>lib/waterline/utils/query/forge-stage-two-query\<close>) is not among the sources.
  What follows are the rules of section 4.2 of the specification that the methods
  above react to: a \<^verbatim>\<open>where\<close> clause that names an attribute the model does not
  have fails with \<^verbatim>\<open>E_INVALID_CRITERIA\<close>; one that is provably unsatisfiable (an
  empty \<^verbatim>\<open>or\<close>, an \<^verbatim>\<open>in\<close> against an empty list) is normalized to the canonical
  no-op criteria and reported as \<^verbatim>\<open>E_NOOP\<close>; for a collection operation the target
  record ids and the associated ids are a single id or a list of ids, an empty list
  of target record ids is \<^verbatim>\<open>E_NOOP\<close>, and the collection attribute must name a
  plural association of the model. The rules on operators and value types, on
  populates, new records and meta are not modelled.
\<close>

text \<open>
  Modelled from the spec: the nested predicate grammar of a \<^verbatim>\<open>where\<close> clause
  (section 3). The attribute names a clause mentions are its keys, other than
  \<^verbatim>\<open>and\<close> and \<^verbatim>\<open>or\<close>, whose lists of clauses are searched in turn.
\<close>

fun where_attrs :: "jsval \<Rightarrow> string list"
  and where_attrs_list :: "jsval list \<Rightarrow> string list"
  and where_attrs_entries :: "(string \<times> jsval) list \<Rightarrow> string list" where
  "where_attrs (JObj kvs) = where_attrs_entries kvs"
| "where_attrs (JArr cs) = where_attrs_list cs"
| "where_attrs JUndefined = []"
| "where_attrs JNull = []"
| "where_attrs (JBool b) = []"
| "where_attrs (JNum n) = []"
| "where_attrs (JStr s) = []"
| "where_attrs (JFn f) = []"
| "where_attrs (JModel m) = []"
| "where_attrs_list [] = []"
| "where_attrs_list (c # cs) = where_attrs c @ where_attrs_list cs"
| "where_attrs_entries [] = []"
| "where_attrs_entries ((k, v) # kvs) =
     (if k = ''and'' \<or> k = ''or'' then where_attrs v else [k]) @ where_attrs_entries kvs"

text \<open>
  Modelled from the spec: a clause that is provably unsatisfiable (section 4.2), that
  is a dictionary one of whose entries matches nothing.
  An \<^verbatim>\<open>or\<close> matches nothing when each of its clauses does (so when it has
  none), an \<^verbatim>\<open>and\<close> when one of its clauses does, an attribute when it is to be
  \<^verbatim>\<open>in\<close> the empty list.
\<close>

fun unsatisfiable :: "jsval \<Rightarrow> bool"
  and unsatisfiable_all :: "jsval list \<Rightarrow> bool"
  and unsatisfiable_any :: "jsval list \<Rightarrow> bool"
  and unsatisfiable_entries :: "(string \<times> jsval) list \<Rightarrow> bool" where
  "unsatisfiable (JObj kvs) = unsatisfiable_entries kvs"
| "unsatisfiable JUndefined = False"
| "unsatisfiable JNull = False"
| "unsatisfiable (JBool b) = False"
| "unsatisfiable (JNum n) = False"
| "unsatisfiable (JStr s) = False"
| "unsatisfiable (JArr xs) = False"
| "unsatisfiable (JFn f) = False"
| "unsatisfiable (JModel m) = False"
| "unsatisfiable_all [] = True"
| "unsatisfiable_all (d # ds) = (unsatisfiable d \<and> unsatisfiable_all ds)"
| "unsatisfiable_any [] = False"
| "unsatisfiable_any (c # cs) = (unsatisfiable c \<or> unsatisfiable_any cs)"
| "unsatisfiable_entries [] = False"
| "unsatisfiable_entries ((k, JArr xs) # kvs) =
     ((if k = ''or'' then unsatisfiable_all xs
       else if k = ''and'' then unsatisfiable_any xs
       else False) \<or> unsatisfiable_entries kvs)"
| "unsatisfiable_entries ((k, v) # kvs) =
     ((k \<noteq> ''or'' \<and> k \<noteq> ''and'' \<and> v = JObj [(''in'', JArr [])]) \<or> unsatisfiable_entries kvs)"

text \<open>Modelled from the spec: the \<^verbatim>\<open>where\<close> clause of the criteria (section 3).\<close>

definition where_of :: "jsval \<Rightarrow> jsval" where
  "where_of criteria = (case criteria of JObj kvs \<Rightarrow> oget kvs ''where'' | _ \<Rightarrow> JUndefined)"

text \<open>
  Modelled from the spec: a failure of stage two is a tagged error carrying a
  \<^verbatim>\<open>code\<close> and a human-readable \<^verbatim>\<open>details\<close> string (section 4.2).
\<close>

definition forge_error :: "string \<Rightarrow> string \<Rightarrow> dict" where
  "forge_error code details =
     [(''name'', JStr ''UsageError''), (''code'', JStr code), (''details'', JStr details)]"

text \<open>Modelled from the spec: a value of a primitive id type, a number or a string.\<close>

definition is_id :: "jsval \<Rightarrow> bool" where
  "is_id x = (case x of JNum n \<Rightarrow> True | JStr s \<Rightarrow> True | _ \<Rightarrow> False)"

text \<open>
  Modelled from the spec: a single id or a list of ids, as the list; \<open>None\<close> when
  malformed.
\<close>

definition normalize_ids :: "jsval \<Rightarrow> jsval list option" where
  "normalize_ids x =
     (case x of
        JNum n \<Rightarrow> Some [x]
      | JStr s \<Rightarrow> Some [x]
      | JArr xs \<Rightarrow> if list_all is_id xs then Some xs else None
      | _ \<Rightarrow> None)"

text \<open>
  Modelled from the spec: the collection attribute name is recognized when it names an
  attribute of the model that has a \<^verbatim>\<open>collection\<close>.
\<close>

definition is_collection_attr :: "orm \<Rightarrow> query \<Rightarrow> bool" where
  "is_collection_attr orm q =
     (case collections orm (q_using q) of
        None \<Rightarrow> False
      | Some WLModel \<Rightarrow>
         (case q_collectionAttrName q of
            JStr a \<Rightarrow>
              (case map_of (m_schema WLModel) a of
                 None \<Rightarrow> False
               | Some d \<Rightarrow> ad_collection d \<noteq> None)
          | _ \<Rightarrow> False))"

text \<open>
  Modelled from the spec: the rules on the keys of a collection operation. An empty
  list of target record ids is a no-op whatever the other keys are; an empty list of
  associated ids is valid.
\<close>

definition forge_collection_keys :: "orm \<Rightarrow> query \<Rightarrow> dict option \<times> query" where
  "forge_collection_keys orm q =
     (case normalize_ids (q_targetRecordIds q) of
        None \<Rightarrow>
          (Some (forge_error ''E_INVALID_TARGET_RECORD_IDS'' ''Invalid target record ids.''), q)
      | Some targetRecordIds \<Rightarrow>
          if targetRecordIds = [] then
            (Some (forge_error ''E_NOOP'' ''No target record ids were provided.''),
             q \<lparr> q_targetRecordIds := JArr [] \<rparr>)
          else if \<not> is_collection_attr orm q then
            (Some (forge_error ''E_INVALID_COLLECTION_ATTR_NAME''
                     ''There is no such collection attribute.''),
             q \<lparr> q_targetRecordIds := JArr targetRecordIds \<rparr>)
          else
           (case normalize_ids (q_associatedIds q) of
              None \<Rightarrow>
                (Some (forge_error ''E_INVALID_ASSOCIATED_IDS'' ''Invalid associated ids.''),
                 q \<lparr> q_targetRecordIds := JArr targetRecordIds \<rparr>)
            | Some associatedIds \<Rightarrow>
                (None, q \<lparr> q_targetRecordIds := JArr targetRecordIds,
                           q_associatedIds := JArr associatedIds \<rparr>)))"

text \<open>
  Modelled from the spec: the rules on the criteria. A \<^verbatim>\<open>where\<close> clause that
  names an attribute the model does not have always fails, also when it matches
  nothing; one that matches nothing is replaced by the canonical no-op criteria.
\<close>

definition forge_criteria :: "orm \<Rightarrow> query \<Rightarrow> dict option \<times> query" where
  "forge_criteria orm q =
     (case collections orm (q_using q) of
        None \<Rightarrow> (Some [(''name'', JStr ''Error''), (''message'', JStr ''Unrecognized model.'')], q)
      | Some WLModel \<Rightarrow>
          (case filter (\<lambda>a. a \<notin> set (map fst (m_schema WLModel)))
                       (where_attrs (where_of (q_criteria q))) of
             a # others \<Rightarrow>
               (Some (forge_error ''E_INVALID_CRITERIA''
                        (''Unrecognized attribute in where clause: '' @ a)), q)
           | [] \<Rightarrow>
               if unsatisfiable (where_of (q_criteria q)) then
                 (Some (forge_error ''E_NOOP'' ''The where clause matches nothing.''),
                  q \<lparr> q_criteria := STD_NOOP_CRITERIA \<rparr>)
               else (None, q)))"

text \<open>
  Modelled from the spec: \<^verbatim>\<open>forgeStageTwoQuery(query, orm)\<close>, by the method of the
  query.
\<close>

definition forgeStageTwoQuery :: "orm \<Rightarrow> forger" where
  "forgeStageTwoQuery orm q =
     (if q_method q \<in> set [''addToCollection'', ''removeFromCollection'', ''replaceCollection'']
      then forge_collection_keys orm q
      else forge_criteria orm q)"

section \<open>Association schemas\<close>

text \<open>
  The schema of a model is derived outside these methods; \<^verbatim>\<open>replaceCollection\<close>
  reads it as it finds it. The comments at lines 341-343 and 370-372 say what it
  takes a junction table to be: a model with exactly two foreign keys, attributes that
  carry both \<^verbatim>\<open>references\<close> and a \<^verbatim>\<open>columnName\<close>.
\<close>

definition foreign_keys :: "wlmodel \<Rightarrow> (string \<times> attrdef) list" where
  "foreign_keys J =
     filter (\<lambda>kd. ad_references (snd kd) \<noteq> None \<and> ad_columnName (snd kd) \<noteq> None)
            (m_schema J)"

text \<open>
  A junction table \<open>J\<close> joins by \<open>p\<close> and \<open>c\<close> for a schema entry: \<open>p\<close> and
  \<open>c\<close> are its two foreign keys, in either order, \<open>p\<close> the one whose column is the
  schema entry's \<^verbatim>\<open>on\<close>.
\<close>

definition joins_by_junction :: "attrdef \<Rightarrow> wlmodel \<Rightarrow> string \<Rightarrow> string \<Rightarrow> bool" where
  "joins_by_junction schemaDef J p c =
     (has_junctionTable J \<and> p \<noteq> c \<and>
      (case foreign_keys J of
         [kd1, kd2] \<Rightarrow>
           (fst kd1 = p \<and> fst kd2 = c \<and>
            ad_columnName (snd kd1) = ad_on schemaDef \<and>
            ad_columnName (snd kd2) \<noteq> ad_on schemaDef) \<or>
           (fst kd1 = c \<and> fst kd2 = p \<and>
            ad_columnName (snd kd2) = ad_on schemaDef \<and>
            ad_columnName (snd kd1) \<noteq> ad_on schemaDef)
       | _ \<Rightarrow> False))"

text \<open>
  A through table \<open>J\<close> joins by \<open>p\<close> and \<open>c\<close> for the collection attribute of a
  query on \<open>WLModel\<close> (lines 355-358): its mapping has two entries, in either order;
  the one keyed by \<^verbatim>\<open>WLModel.identity + '.' + query.collectionAttrName\<close> gives \<open>c\<close>,
  the attribute that points at the associated model, and the other one gives \<open>p\<close>.
\<close>

definition joins_by_through :: "wlmodel \<Rightarrow> query \<Rightarrow> wlmodel \<Rightarrow> string \<Rightarrow> string \<Rightarrow> bool" where
  "joins_by_through WLModel q J p c =
     (\<not> has_junctionTable J \<and> p \<noteq> c \<and>
      (let mine = m_identity WLModel @ ''.'' @ js_string (q_collectionAttrName q)
       in case m_throughTable J of
            Some [kr1, kr2] \<Rightarrow>
              (fst kr1 = mine \<and> fst kr2 \<noteq> mine \<and> snd kr1 = c \<and> snd kr2 = p) \<or>
              (fst kr2 = mine \<and> fst kr1 \<noteq> mine \<and> snd kr2 = c \<and> snd kr1 = p)
          | _ \<Rightarrow> False))"

text \<open>
  The model that a schema entry references (\<^verbatim>\<open>referenceIdentity\<close>) is the model
  that its \<^verbatim>\<open>collection\<close> names, or else a join model: one that carries a truthy
  \<^verbatim>\<open>junctionTable\<close> flag or a \<^verbatim>\<open>throughTable\<close> mapping with entries. These
  are the shapes of an association schema entry; lines 290-304 look for them in this
  order.
\<close>

definition references_collection_or_join_model :: "orm \<Rightarrow> attrdef \<Rightarrow> bool" where
  "references_collection_or_join_model orm schemaDef =
     (case ad_collection schemaDef of
        None \<Rightarrow> False
      | Some coll \<Rightarrow>
         (case ad_referenceIdentity schemaDef of
            None \<Rightarrow> False
          | Some ri \<Rightarrow>
             (case collections orm coll of
                None \<Rightarrow> False
              | Some M \<Rightarrow>
                 ri = m_identity M \<or>
                 (case collections orm ri of
                    None \<Rightarrow> False
                  | Some J \<Rightarrow> has_junctionTable J \<or> has_throughTable_keys J))))"

section \<open>A pet store\<close>

text \<open>
  The model \<^verbatim>\<open>pet\<close> of the specification, with its many-to-many association
  \<^verbatim>\<open>owners\<close> through the join table \<^verbatim>\<open>pet_owners\<close>; a model \<^verbatim>\<open>owner\<close>
  whose \<^verbatim>\<open>pets\<close> are the pets that point back at it through their foreign key
  \<^verbatim>\<open>owner\<close>; and a model \<^verbatim>\<open>vet\<close> whose \<^verbatim>\<open>patients\<close> are pets, many-to-many
  through the model \<^verbatim>\<open>visit\<close>, as \<^verbatim>\<open>vets\<close> is on the side of \<^verbatim>\<open>pet\<close>: a
  visit holds the foreign keys \<^verbatim>\<open>vet\<close> and \<^verbatim>\<open>pet\<close>, and its through-table mapping
  gives, for each of the two associations, the attribute of the visit that points at
  the associated model.
\<close>

definition plain_attr :: attrdef where
  "plain_attr =
     \<lparr> ad_collection = None, ad_referenceIdentity = None, ad_via = None,
       ad_on = None, ad_references = None, ad_columnName = None \<rparr>"

definition owners_attr :: attrdef where
  "owners_attr =
     plain_attr \<lparr> ad_collection := Some ''pet_owners'',
                  ad_referenceIdentity := Some ''pet_owners'',
                  ad_on := Some ''pet'' \<rparr>"

definition pets_attr :: attrdef where
  "pets_attr =
     plain_attr \<lparr> ad_collection := Some ''pet'',
                  ad_referenceIdentity := Some ''pet'',
                  ad_via := Some ''owner'' \<rparr>"

definition patients_attr :: attrdef where
  "patients_attr =
     plain_attr \<lparr> ad_collection := Some ''pet'',
                  ad_referenceIdentity := Some ''visit'' \<rparr>"

definition vets_attr :: attrdef where
  "vets_attr =
     plain_attr \<lparr> ad_collection := Some ''vet'',
                  ad_referenceIdentity := Some ''visit'' \<rparr>"

definition Pet :: wlmodel where
  "Pet =
     \<lparr> m_identity = ''pet'', m_primaryKey = ''id'',
       m_junctionTable = None, m_throughTable = None,
       m_schema = [(''id'', plain_attr \<lparr> ad_columnName := Some ''id'' \<rparr>),
                   (''name'', plain_attr \<lparr> ad_columnName := Some ''name'' \<rparr>),
                   (''owner'', plain_attr \<lparr> ad_columnName := Some ''owner'',
                                             ad_references := Some ''owner'' \<rparr>),
                   (''owners'', owners_attr),
                   (''vets'', vets_attr)],
       m_datastore = ''default'', m_adapter = [''find'', ''count''] \<rparr>"

definition PetOwners :: wlmodel where
  "PetOwners =
     \<lparr> m_identity = ''pet_owners'', m_primaryKey = ''id'',
       m_junctionTable = Some (JBool True), m_throughTable = None,
       m_schema = [(''id'', plain_attr \<lparr> ad_columnName := Some ''id'' \<rparr>),
                   (''pet'', plain_attr \<lparr> ad_columnName := Some ''pet'',
                                           ad_references := Some ''pet'' \<rparr>),
                   (''owner'', plain_attr \<lparr> ad_columnName := Some ''owner'',
                                             ad_references := Some ''owner'' \<rparr>)],
       m_datastore = ''default'', m_adapter = [''find'', ''count''] \<rparr>"

definition Owner :: wlmodel where
  "Owner =
     \<lparr> m_identity = ''owner'', m_primaryKey = ''id'',
       m_junctionTable = None, m_throughTable = None,
       m_schema = [(''id'', plain_attr \<lparr> ad_columnName := Some ''id'' \<rparr>),
                   (''pets'', pets_attr)],
       m_datastore = ''default'', m_adapter = [''find'', ''count''] \<rparr>"

definition Vet :: wlmodel where
  "Vet =
     \<lparr> m_identity = ''vet'', m_primaryKey = ''id'',
       m_junctionTable = None, m_throughTable = None,
       m_schema = [(''id'', plain_attr \<lparr> ad_columnName := Some ''id'' \<rparr>),
                   (''patients'', patients_attr)],
       m_datastore = ''default'', m_adapter = [''find'', ''count''] \<rparr>"

definition Visit :: wlmodel where
  "Visit =
     \<lparr> m_identity = ''visit'', m_primaryKey = ''id'',
       m_junctionTable = None,
       m_throughTable = Some [(''vet.patients'', ''pet''), (''pet.vets'', ''vet'')],
       m_schema = [(''id'', plain_attr \<lparr> ad_columnName := Some ''id'' \<rparr>),
                   (''vet'', plain_attr \<lparr> ad_columnName := Some ''vet'',
                                           ad_references := Some ''vet'' \<rparr>),
                   (''pet'', plain_attr \<lparr> ad_columnName := Some ''pet'',
                                           ad_references := Some ''pet'' \<rparr>)],
       m_datastore = ''default'', m_adapter = [''find'', ''count''] \<rparr>"

definition petstore :: orm where
  "petstore =
     \<lparr> collections = [''pet'' \<mapsto> Pet, ''pet_owners'' \<mapsto> PetOwners,
                       ''owner'' \<mapsto> Owner, ''vet'' \<mapsto> Vet, ''visit'' \<mapsto> Visit] \<rparr>"

text \<open>A query description as stage two leaves it.\<close>

definition collection_query :: "string \<Rightarrow> jsval \<Rightarrow> string \<Rightarrow> jsval \<Rightarrow> query" where
  "collection_query ident targetRecordIds collectionAttrName associatedIds =
     (new_query ''replaceCollection'' ident)
       \<lparr> q_targetRecordIds := targetRecordIds,
         q_collectionAttrName := JStr collectionAttrName,
         q_associatedIds := associatedIds \<rparr>"

definition owner_pets_query :: query where
  "owner_pets_query = collection_query ''owner'' (JArr [JNum 1]) ''pets'' (JArr [JNum 5, JNum 6])"

definition pet_owners_query :: query where
  "pet_owners_query = collection_query ''pet'' (JArr [JNum 1, JNum 2]) ''owners'' (JArr [JNum 9])"

definition vet_patients_query :: query where
  "vet_patients_query = collection_query ''vet'' (JArr [JNum 1]) ''patients'' (JArr [JNum 2])"

text \<open>The owners of pets 1 and 2 cleared; and a replacement for no pet at all.\<close>

definition clear_owners_query :: query where
  "clear_owners_query = collection_query ''pet'' (JArr [JNum 1, JNum 2]) ''owners'' (JArr [])"

definition no_targets_query :: query where
  "no_targets_query = collection_query ''pet'' (JArr []) ''owners'' (JArr [JNum 9])"

text \<open>A caller who asks for the lifecycle callbacks to run and for the rows back.\<close>

definition eager_owners_query :: query where
  "eager_owners_query =
     pet_owners_query \<lparr> q_meta := JObj [(''skipAllLifecycleCallbacks'', JBool False),
                                          (''fetch'', JBool True)] \<rparr>"

text \<open>
  Queries on \<^verbatim>\<open>pet\<close>: one whose criteria are the canonical no-op, one whose
  \<^verbatim>\<open>where\<close> clause misspells \<^verbatim>\<open>name\<close>, and a \<^verbatim>\<open>findOrCreate\<close> of a
  pet called Rex, with the criteria as stage two completes them and the primary key
  set to \<^verbatim>\<open>null\<close>.
\<close>

definition noop_query :: query where
  "noop_query = (new_query ''find'' ''pet'') \<lparr> q_criteria := STD_NOOP_CRITERIA \<rparr>"

definition misspelled_query :: query where
  "misspelled_query =
     (new_query ''count'' ''pet'')
       \<lparr> q_criteria := JObj [(''where'', JObj [(''nmae'', JStr ''Rex'')])] \<rparr>"

definition rex_query :: query where
  "rex_query =
     (new_query ''findOrCreate'' ''pet'')
       \<lparr> q_criteria := JObj [(''where'', JObj [(''name'', JStr ''Rex'')]),
                             (''limit'', JNum 9007199254740991),
                             (''skip'', JNum 0),
                             (''sort'', JArr [])],
         q_newRecord := JObj [(''id'', JNull), (''name'', JStr ''Rex'')] \<rparr>"

text \<open>The same, from a caller who passes a \<^verbatim>\<open>meta\<close> with \<^verbatim>\<open>fetch: false\<close>.\<close>

definition fetching_rex_query :: query where
  "fetching_rex_query =
     rex_query \<lparr> q_meta := JObj [(''fetch'', JBool False),
                                  (''skipAllLifecycleCallbacks'', JBool True)] \<rparr>"

definition rex :: jsval where
  "rex = JObj [(''id'', JNum 7), (''name'', JStr ''Rex'')]"

text \<open>A stage two that finds the query in canonical form already and leaves it as it is.\<close>

definition leaves_as_is :: forger where
  "leaves_as_is q = (None, q)"

text \<open>A stage two that reports every query as a no-op.\<close>

definition reports_noop :: forger where
  "reports_noop q = (Some [(''code'', JStr ''E_NOOP'')], q)"

text \<open>
  Environments: every operation calls back with no error and no result; every
  \<^verbatim>\<open>findOne\<close> finds the given record; every \<^verbatim>\<open>create\<close> gives the given
  record back and nothing is ever found.
\<close>

definition succeeds :: world where
  "succeeds n c = []"

definition finds :: "jsval \<Rightarrow> world" where
  "finds record n c = (case c of FindOne m cr mt \<Rightarrow> [JUndefined, record] | _ \<Rightarrow> [])"

definition creates :: "jsval \<Rightarrow> world" where
  "creates record n c = (case c of Create m r mt \<Rightarrow> [JUndefined, record] | _ \<Rightarrow> [])"

text \<open>Helpers that pass their argument on.\<close>

definition accepts_records :: "jsval \<Rightarrow> jsval \<Rightarrow> string \<Rightarrow> jsval + jsval" where
  "accepts_records records meta ident = Inr records"

definition binds_as_is :: "query \<Rightarrow> jsval + query" where
  "binds_as_is q = Inr q"

definition same_error :: "jsval \<Rightarrow> string \<Rightarrow> jsval" where
  "same_error err ident = err"

section \<open>Reading a run\<close>

text \<open>The operations a run issued, and those that called back with what, in order.\<close>

definition issued_calls :: "event list \<Rightarrow> call list" where
  "issued_calls es = concat (map (\<lambda>e. case e of Issued c \<Rightarrow> [c] | _ \<Rightarrow> []) es)"

definition completed_calls :: "event list \<Rightarrow> (call \<times> jsval list) list" where
  "completed_calls es =
     concat (map (\<lambda>e. case e of Completed c r \<Rightarrow> [(c, r)] | _ \<Rightarrow> []) es)"

section \<open>Auxiliary facts\<close>

lemmas store_defs =
  petstore_def Pet_def PetOwners_def Owner_def Vet_def Visit_def plain_attr_def owners_attr_def
  pets_attr_def patients_attr_def vets_attr_def collection_query_def new_query_def
  owner_pets_query_def pet_owners_query_def vet_patients_query_def
  clear_owners_query_def no_targets_query_def eager_owners_query_def

lemma toLowerCase_store:
  "toLowerCase ''pet'' = ''pet''" "toLowerCase ''owner'' = ''owner''"
  "toLowerCase ''vet'' = ''vet''" "toLowerCase ''pet_owners'' = ''pet_owners''"
  "toLowerCase ''visit'' = ''visit''"
  by (simp_all add: toLowerCase_def lower_char_def)

lemma resolve_vet_patients:
  "resolveAssociation petstore vet_patients_query = Resolved Vet patients_attr Visit True"
  by (simp add: resolveAssociation_def store_defs toLowerCase_store classify_def
        has_junctionTable_def has_throughTable_keys_def)

lemma resolve_owner_pets:
  "resolveAssociation petstore owner_pets_query = Resolved Owner pets_attr Pet False"
  by (simp add: resolveAssociation_def store_defs toLowerCase_store classify_def
        has_junctionTable_def has_throughTable_keys_def)

lemma resolve_pet_owners:
  "resolveAssociation petstore (collection_query ''pet'' targetRecordIds ''owners'' associatedIds) =
     Resolved Pet owners_attr PetOwners True"
  by (simp add: resolveAssociation_def store_defs toLowerCase_store classify_def
        has_junctionTable_def has_throughTable_keys_def)

lemma references_pet_owners:
  "findReferences Pet (collection_query ''pet'' targetRecordIds ''owners'' associatedIds)
     owners_attr PetOwners = (Some ''pet'', Some ''owner'')"
  by (simp add: findReferences_def has_junctionTable_def last_key_where_def store_defs)

lemma joins_pet_owners: "joins_by_junction owners_attr PetOwners ''pet'' ''owner''"
  by (simp add: joins_by_junction_def foreign_keys_def has_junctionTable_def store_defs)

lemma joins_vet_patients: "joins_by_through Vet vet_patients_query Visit ''vet'' ''pet''"
  by (simp add: joins_by_through_def has_junctionTable_def store_defs)

lemma shape_owner_pets: "references_collection_or_join_model petstore pets_attr"
  by (simp add: references_collection_or_join_model_def store_defs)

lemma shape_vet_patients: "references_collection_or_join_model petstore patients_attr"
  by (simp add: references_collection_or_join_model_def store_defs has_throughTable_keys_def)

lemma oget_oset_same: "oget (oset d k v) k = v"
  by (induction d) (auto simp: oget_def)

lemma oget_oset_other: "k' \<noteq> k \<Longrightarrow> oget (oset d k v) k' = oget d k'"
  by (induction d) (auto simp: oget_def)

lemma lodash_extend_one: "lodash_extend d (JObj [(k, v)]) = oset d k v"
  by (simp add: lodash_extend_def own_entries_def)

lemma lodash_extend_empty: "lodash_extend d (JObj []) = d"
  by (simp add: lodash_extend_def own_entries_def)

text \<open>\<^verbatim>\<open>_.extend({}, meta)\<close> is a copy of \<^verbatim>\<open>meta\<close>.\<close>

lemma oset_fresh: "k \<notin> fst ` set d \<Longrightarrow> oset d k v = d @ [(k, v)]"
  by (induction d) auto

lemma fold_oset_distinct:
  "distinct (map fst kvs) \<Longrightarrow> fst ` set kvs \<inter> fst ` set d = {} \<Longrightarrow>
   fold (\<lambda>kv acc. oset acc (fst kv) (snd kv)) kvs d = d @ kvs"
proof (induction kvs arbitrary: d)
  case Nil
  then show ?case by simp
next
  case (Cons kv kvs)
  from Cons.prems have fresh: "fst kv \<notin> fst ` set d" by auto
  have "fst ` set kvs \<inter> fst ` set (d @ [kv]) = {}"
    using Cons.prems by auto
  with Cons.IH [of "d @ [kv]"] Cons.prems(1) fresh show ?case
    by (simp add: oset_fresh)
qed

lemma lodash_extend_clone:
  "distinct (map fst meta) \<Longrightarrow> lodash_extend [] (JObj meta) = meta"
  using fold_oset_distinct [of meta "[]"]
  by (simp add: lodash_extend_def own_entries_def)

lemma issued_calls_simps [simp]:
  "issued_calls [] = []"
  "issued_calls (e # es) = (case e of Issued c \<Rightarrow> [c] | _ \<Rightarrow> []) @ issued_calls es"
  "issued_calls (xs @ ys) = issued_calls xs @ issued_calls ys"
  by (simp_all add: issued_calls_def)

lemma completed_calls_simps [simp]:
  "completed_calls [] = []"
  "completed_calls (e # es) =
     (case e of Completed c r \<Rightarrow> [(c, r)] | _ \<Rightarrow> []) @ completed_calls es"
  "completed_calls (xs @ ys) = completed_calls xs @ completed_calls ys"
  by (simp_all add: completed_calls_def)

lemma calls_proceed [simp]: "issued_calls (proceed e) = []" "completed_calls (proceed e) = []"
  by (simp_all add: proceed_def)

text \<open>What a resolved association says about the schema it was resolved from.\<close>

lemma resolveAssociation_Resolved:
  assumes "resolveAssociation orm q = Resolved WLModel sd child m"
  shows "\<exists>coll ri child0.
           toLowerCase (q_using q) = q_using q \<and>
           collections orm (q_using q) = Some WLModel \<and>
           map_of (m_schema WLModel) (js_string (q_collectionAttrName q)) = Some sd \<and>
           ad_collection sd = Some coll \<and> ad_referenceIdentity sd = Some ri \<and>
           collections orm coll = Some child0 \<and>
           classify orm ri child0 = Some (m, child)"
  using assms
  by (auto simp: resolveAssociation_def split: if_splits option.splits prod.splits)

lemma classify_Some:
  assumes "classify orm ri child0 = Some (m, child)"
  shows "(m \<longleftrightarrow> ri \<noteq> m_identity child0 \<or> has_junctionTable child \<or> has_throughTable_keys child) \<and>
         (if ri \<noteq> m_identity child0 then collections orm ri = Some child else child = child0)"
proof (cases "ri = m_identity child0")
  case True
  with assms show ?thesis
    by (simp add: classify_def Let_def split: if_splits)
next
  case False
  with assms show ?thesis
    by (cases "collections orm ri") (simp_all add: classify_def Let_def split: if_splits)
qed

text \<open>
  The references of a join model of either shape: the last key that passes is the only
  one that does.
\<close>

lemma fold_last_key:
  "fold (\<lambda>kv acc. if P kv then Some (fst kv) else acc) kvs acc =
     (case rev (filter P kvs) of [] \<Rightarrow> acc | kv # _ \<Rightarrow> Some (fst kv))"
  by (induction kvs arbitrary: acc) (auto split: list.splits)

lemma last_key_where_filter:
  "last_key_where P kvs =
     (case rev (filter (\<lambda>kv. P (snd kv)) kvs) of [] \<Rightarrow> None | kv # _ \<Rightarrow> Some (fst kv))"
  unfolding last_key_where_def by (rule fold_last_key)

lemma last_key_where_foreign:
  "last_key_where (\<lambda>d. ad_references d \<noteq> None \<and> ad_columnName d \<noteq> None \<and> Q d) (m_schema J) =
   last_key_where Q (foreign_keys J)"
proof -
  have "filter (\<lambda>kv. ad_references (snd kv) \<noteq> None \<and> ad_columnName (snd kv) \<noteq> None \<and> Q (snd kv))
               (m_schema J) =
        filter (\<lambda>kv. Q (snd kv)) (foreign_keys J)"
    unfolding foreign_keys_def filter_filter by (rule filter_cong) auto
  then show ?thesis unfolding last_key_where_filter by simp
qed

lemma findReferences_junction:
  assumes "joins_by_junction schemaDef J p c"
  shows "findReferences WLModel q schemaDef J = (Some p, Some c)"
proof -
  from assms have j: "has_junctionTable J" by (simp add: joins_by_junction_def)
  from assms obtain kd1 kd2 where fk: "foreign_keys J = [kd1, kd2]"
    and sh: "(fst kd1 = p \<and> fst kd2 = c \<and>
            ad_columnName (snd kd1) = ad_on schemaDef \<and>
            ad_columnName (snd kd2) \<noteq> ad_on schemaDef) \<or>
           (fst kd1 = c \<and> fst kd2 = p \<and>
            ad_columnName (snd kd2) = ad_on schemaDef \<and>
            ad_columnName (snd kd1) \<noteq> ad_on schemaDef)"
    by (auto simp: joins_by_junction_def split: list.splits)
  have "findReferences WLModel q schemaDef J =
          (last_key_where (\<lambda>d. ad_columnName d = ad_on schemaDef) [kd1, kd2],
           last_key_where (\<lambda>d. ad_columnName d \<noteq> ad_on schemaDef) [kd1, kd2])"
    unfolding findReferences_def last_key_where_foreign fk Let_def
    using j by simp
  with sh show ?thesis by (auto simp: last_key_where_def)
qed

lemma findReferences_through:
  assumes "joins_by_through WLModel q J p c"
  shows "findReferences WLModel q schemaDef J = (Some p, Some c)"
  using assms
  by (auto simp: joins_by_through_def findReferences_def Let_def
           split: option.splits list.splits)

lemma findReferences_joins:
  assumes "joins_by_junction schemaDef J p c \<or> joins_by_through WLModel q J p c"
  shows "findReferences WLModel q schemaDef J = (Some p, Some c) \<and> p \<noteq> c"
  using assms findReferences_junction [of schemaDef J p c WLModel q]
    findReferences_through [of WLModel q J p c schemaDef]
  by (auto simp: joins_by_junction_def joins_by_through_def)

text \<open>
  The many-to-many expansion where there is something to insert: the records are one
  per pair of the cartesian product, target ids outermost.
\<close>

lemma runManyToMany_nonempty:
  assumes "q_targetRecordIds q = JArr targetRecordIds"
    and "q_associatedIds q = JArr associatedIds" and "associatedIds \<noteq> []"
    and "findReferences WLModel q schemaDef WLChild = (parentReference, childReference)"
    and "meta = JObj (oset modifiedMeta ''fetch'' (JBool False))"
    and "destroy = Destroy WLChild
                     (JObj [(''where'',
                             JObj [(key_of parentReference, JObj [(''in'', JArr targetRecordIds)])])])
                     meta"
    and "createEach = CreateEach WLChild
                        (JArr (map (\<lambda>(targetId, associatedId).
                                      JObj (oset [(key_of parentReference, targetId)]
                                                 (key_of childReference) associatedId))
                                   (List.product targetRecordIds associatedIds)))
                        meta"
  shows "runManyToMany w WLModel q schemaDef WLChild modifiedMeta =
           (if truthy (errOf (w 0 destroy)) then
              [Issued destroy, Completed destroy (w 0 destroy), Handler [errOf (w 0 destroy)]]
            else if truthy (errOf (w 1 createEach)) then
              [Issued destroy, Completed destroy (w 0 destroy),
               Issued createEach, Completed createEach (w 1 createEach),
               Handler [errOf (w 1 createEach)]]
            else
              [Issued destroy, Completed destroy (w 0 destroy),
               Issued createEach, Completed createEach (w 1 createEach),
               Handler []])"
proof -
  have len: "js_get (q_associatedIds q) ''length'' = Some (JNum (int (length associatedIds)))"
    using assms(2) by (simp add: js_get_def)
  have nonempty: "truthy (JNum (int (length associatedIds)))"
    using assms(3) by simp
  have records: "insertRecords parentReference childReference q =
                   map (\<lambda>(targetId, associatedId).
                          JObj (oset [(key_of parentReference, targetId)]
                                     (key_of childReference) associatedId))
                       (List.product targetRecordIds associatedIds)"
    using assms(1,2)
    by (simp add: insertRecords_def each_values_def List.product_concat_map map_concat comp_def)
  show ?thesis
    unfolding runManyToMany_def
    using assms(1,2,4-7) len nonempty
    by (simp add: Let_def criteriaOfDestruction_def records proceed_def)
qed

text \<open>The operations of a run of \<^verbatim>\<open>async.each\<close>.\<close>

lemma drain_calls:
  assumes "\<forall>i \<in> set sched. i < length cs"
  shows "issued_calls (drain proceed cs rs sched fired completed) = [] \<and>
         completed_calls (drain proceed cs rs sched fired completed) =
           map (\<lambda>i. (cs ! i, rs ! i)) sched"
  using assms
  by (induction sched arbitrary: fired completed) simp_all

lemma Issued_proceed: "Issued c \<notin> set (proceed e)"
  by (simp add: proceed_def)

lemma Issued_catch: "Issued c \<notin> set (replaceCollection_catch e)"
  by (simp add: replaceCollection_catch_def Let_def)

lemma Issued_drain: "Issued c \<notin> set (drain proceed cs rs sched fired completed)"
  by (induction sched arbitrary: fired completed) (simp_all add: Issued_proceed)

lemma Issued_async_each: "Issued c \<in> set (async_each w n sched cs proceed) \<Longrightarrow> c \<in> set cs"
  by (auto simp: async_each_def Issued_proceed Issued_drain split: if_splits)

lemma Issued_runManyToMany:
  assumes "Issued c \<in> set (runManyToMany w WLModel q schemaDef WLChild mm)"
  shows "call_meta c = JObj (oset mm ''fetch'' (JBool False))"
  using assms
  by (auto simp: runManyToMany_def Let_def Issued_proceed call_meta_def
           split: if_splits option.splits)

lemma Issued_runOneToMany:
  assumes "Issued c \<in> set (runOneToMany w sched q schemaDef WLChild mm)"
  shows "call_meta c = JObj mm"
  using assms
  by (auto simp: runOneToMany_def Let_def Issued_proceed call_meta_def nullOutUpdate_def
        pairUpdates_def dest!: Issued_async_each split: if_splits)

lemma skips_modifiedMeta:
  "oget (replaceCollection_modifiedMeta q) ''skipAllLifecycleCallbacks'' = JBool True"
  by (simp add: replaceCollection_modifiedMeta_def lodash_extend_one oget_oset_same)

text \<open>The run of \<^verbatim>\<open>findOrCreate\<close> once its criteria are a dictionary.\<close>

lemma findOrCreate_run_dictionary:
  assumes "q_criteria q = JObj criteria"
    and "findOne = FindOne WLModel
                     (JObj (odelete (odelete (odelete criteria ''limit'') ''skip'') ''sort''))
                     (q_meta q)"
  shows "findOrCreate_run w WLModel q =
           [Issued findOne, Completed findOne (w 0 findOne)] @
           (if truthy (errOf (w 0 findOne)) then [Handler [errOf (w 0 findOne)]]
            else if truthy (resultOf (w 0 findOne)) then
              [Handler [JUndefined, resultOf (w 0 findOne), JBool False]]
            else case js_get (q_newRecord q) (m_primaryKey WLModel) of
              None \<Rightarrow> [Uncaught (TypeError ''Cannot read property of undefined'')]
            | Some pkValue \<Rightarrow>
               (let newRecord =
                      (if pkValue = JNull then
                         (case js_delete (q_newRecord q) (m_primaryKey WLModel) of
                            None \<Rightarrow> q_newRecord q
                          | Some rec \<Rightarrow> rec)
                       else q_newRecord q);
                    create = Create WLModel newRecord (JObj (findOrCreate_modifiedMeta q))
                in [Issued create, Completed create (w 1 create)] @
                   (if truthy (errOf (w 1 create)) then [Handler [errOf (w 1 create)]]
                    else [Handler [JUndefined, resultOf (w 1 create), JBool True]])))"
  using assms
  by (simp add: findOrCreate_run_def delete_paging_def js_delete_def Let_def
           split: option.splits)

text \<open>Stage two failing on the criteria ends \<^verbatim>\<open>find\<close> and \<^verbatim>\<open>count\<close> at once.\<close>

lemma invalid_criteria_stops:
  assumes "forge query = (Some e, q)"
    and "oget e ''code'' = JStr ''E_INVALID_CRITERIA''"
  shows "find_handler forge w processAllRecords WLModel query =
           [Handler [UsageError (''Invalid criteria.'' @ newline @ ''Details:'' @ newline @
                                 ''  '' @ js_string (oget e ''details'') @ newline)]]"
    and "count_handler forge forgeStageThreeQuery forgeAdapterError w WLModel query =
           [Handler [JObj e]]"
  using assms
  by (simp_all add: find_handler_def find_catch_def count_handler_def count_catch_def Let_def)

lemma forge_criteria_missing_attribute:
  assumes "collections orm (q_using query) = Some M"
    and "a \<in> set (where_attrs (where_of (q_criteria query)))"
    and "a \<notin> set (map fst (m_schema M))"
  shows "\<exists>b. b \<in> set (where_attrs (where_of (q_criteria query))) \<and>
             b \<notin> set (map fst (m_schema M)) \<and>
             forge_criteria orm query =
               (Some (forge_error ''E_INVALID_CRITERIA''
                        (''Unrecognized attribute in where clause: '' @ b)), query)"
proof -
  let ?missing = "filter (\<lambda>a. a \<notin> set (map fst (m_schema M)))
                         (where_attrs (where_of (q_criteria query)))"
  from assms(2,3) have "a \<in> set ?missing" by simp
  then have "?missing \<noteq> []" by (metis empty_iff empty_set)
  then obtain b others where m: "?missing = b # others"
    by (cases ?missing) simp_all
  then have "b \<in> set ?missing" by simp
  then have "b \<in> set (where_attrs (where_of (q_criteria query)))"
    and "b \<notin> set (map fst (m_schema M))"
    by simp_all
  moreover from m assms(1) have "forge_criteria orm query =
     (Some (forge_error ''E_INVALID_CRITERIA''
              (''Unrecognized attribute in where clause: '' @ b)), query)"
    by (simp add: forge_criteria_def)
  ultimately show ?thesis by blast
qed

lemma forge_empty_targets:
  assumes "q_method query = ''replaceCollection''"
    and "q_targetRecordIds query = JArr []"
  shows "forgeStageTwoQuery orm query =
           (Some (forge_error ''E_NOOP'' ''No target record ids were provided.''), query)"
  using assms
  by (simp add: forgeStageTwoQuery_def forge_collection_keys_def normalize_ids_def)

section \<open>Properties of replaceCollection\<close>

text \<open>
  C1. A many-to-many \<^verbatim>\<open>replaceCollection\<close> whose query, as stage two leaves it,
  has non-empty lists of target record ids and of associated ids. The run starts with
  exactly one destroy on the join model, of the rows whose parent reference is
  \<^verbatim>\<open>in\<close> the target record ids. Only once that destroy has called back, and without
  an error, one \<^verbatim>\<open>createEach\<close> follows, with one record for each pair of the
  cartesian product of the target record ids and the associated ids, target ids
  outermost: the parent reference set to the target id, then the child reference to
  the associated id. A destroy that fails ends the run with its error, and no insert
  is issued. Both operations carry the modified meta with \<^verbatim>\<open>fetch: false\<close>.

  The references are those of lines 336-383, \<^verbatim>\<open>undefined\<close> where the join model
  has none. Where the join model is a junction table with its two foreign keys, the
  parent reference is the one whose column is the schema entry's \<^verbatim>\<open>on\<close> and the
  child reference is the other one; where it is a through table, the child reference
  is what the mapping gives for this model's collection attribute and the parent
  reference what it gives for the other entry. The two differ, and every record is
  the join row \<open>{p: targetId, c: associatedId}\<close>.
\<close>

theorem replaceCollection_manyToMany:
  assumes "forge query = (None, q)"
    and "resolveAssociation orm q = Resolved WLModel schemaDef WLChild True"
    and "q_targetRecordIds q = JArr targetRecordIds" and "targetRecordIds \<noteq> []"
    and "q_associatedIds q = JArr associatedIds" and "associatedIds \<noteq> []"
  shows "let parentReference = key_of (fst (findReferences WLModel q schemaDef WLChild));
             childReference = key_of (snd (findReferences WLModel q schemaDef WLChild));
             meta = JObj (oset (replaceCollection_modifiedMeta q) ''fetch'' (JBool False));
             destroy = Destroy WLChild
                         (JObj [(''where'',
                                 JObj [(parentReference, JObj [(''in'', JArr targetRecordIds)])])])
                         meta;
             createEach = CreateEach WLChild
                            (JArr (map (\<lambda>(targetId, associatedId).
                                          JObj (oset [(parentReference, targetId)]
                                                     childReference associatedId))
                                       (List.product targetRecordIds associatedIds)))
                            meta
         in replaceCollection_handler forge w sched orm query =
              (if truthy (errOf (w 0 destroy)) then
                 [Issued destroy, Completed destroy (w 0 destroy), Handler [errOf (w 0 destroy)]]
               else if truthy (errOf (w 1 createEach)) then
                 [Issued destroy, Completed destroy (w 0 destroy),
                  Issued createEach, Completed createEach (w 1 createEach),
                  Handler [errOf (w 1 createEach)]]
               else
                 [Issued destroy, Completed destroy (w 0 destroy),
                  Issued createEach, Completed createEach (w 1 createEach),
                  Handler []]) \<and>
            (\<forall>p c. joins_by_junction schemaDef WLChild p c \<or>
                   joins_by_through WLModel q WLChild p c \<longrightarrow>
               findReferences WLModel q schemaDef WLChild = (Some p, Some c) \<and> p \<noteq> c \<and>
               destroy = Destroy WLChild
                           (JObj [(''where'', JObj [(p, JObj [(''in'', JArr targetRecordIds)])])])
                           meta \<and>
               createEach = CreateEach WLChild
                              (JArr (map (\<lambda>(targetId, associatedId).
                                            JObj [(p, targetId), (c, associatedId)])
                                         (List.product targetRecordIds associatedIds)))
                              meta)"
proof -
  obtain pr cr where refs: "findReferences WLModel q schemaDef WLChild = (pr, cr)"
    by (cases "findReferences WLModel q schemaDef WLChild")
  have run: "replaceCollection_handler forge w sched orm query =
               runManyToMany w WLModel q schemaDef WLChild (replaceCollection_modifiedMeta q)"
    using assms(1,2) by (simp add: replaceCollection_handler_def)
  have shape: "pr = Some p \<and> cr = Some c \<and> p \<noteq> c"
    if "joins_by_junction schemaDef WLChild p c \<or> joins_by_through WLModel q WLChild p c"
    for p c
    using findReferences_joins [OF that] refs by simp
  have records: "map (\<lambda>(targetId, associatedId). JObj (oset [(p, targetId)] c associatedId)) xs =
                 map (\<lambda>(targetId, associatedId). JObj [(p, targetId), (c, associatedId)]) xs"
    if "p \<noteq> c" for p c and xs :: "(jsval \<times> jsval) list"
    using that by simp
  show ?thesis
    unfolding run Let_def refs fst_conv snd_conv
    using runManyToMany_nonempty [OF assms(3,5,6) refs refl refl refl, of w "replaceCollection_modifiedMeta q"]
      shape records
    by (auto simp: key_of_def)
qed

text \<open>
  \<^verbatim>\<open>replaceCollection([1,2], 'owners', [9])\<close> on \<^verbatim>\<open>pet\<close>, through the junction
  table: the rows of pets 1 and 2 are destroyed, then the two rows (1,9) and (2,9) are
  inserted. \<^verbatim>\<open>replaceCollection([1], 'patients', [2])\<close> on \<^verbatim>\<open>vet\<close>, through the
  visits: the visits of vet 1 are destroyed, then the visit of pet 2 to vet 1 is
  inserted.
\<close>

theorem replaceCollection_manyToMany_witness:
  "leaves_as_is pet_owners_query = (None, pet_owners_query) \<and>
   resolveAssociation petstore pet_owners_query = Resolved Pet owners_attr PetOwners True \<and>
   q_targetRecordIds pet_owners_query = JArr [JNum 1, JNum 2] \<and>
   q_associatedIds pet_owners_query = JArr [JNum 9] \<and>
   joins_by_junction owners_attr PetOwners ''pet'' ''owner'' \<and>
   replaceCollection_handler leaves_as_is succeeds [] petstore pet_owners_query =
     [Issued (Destroy PetOwners
                (JObj [(''where'', JObj [(''pet'', JObj [(''in'', JArr [JNum 1, JNum 2])])])])
                (JObj [(''skipAllLifecycleCallbacks'', JBool True), (''fetch'', JBool False)])),
      Completed (Destroy PetOwners
                (JObj [(''where'', JObj [(''pet'', JObj [(''in'', JArr [JNum 1, JNum 2])])])])
                (JObj [(''skipAllLifecycleCallbacks'', JBool True), (''fetch'', JBool False)]))
                [],
      Issued (CreateEach PetOwners
                (JArr [JObj [(''pet'', JNum 1), (''owner'', JNum 9)],
                       JObj [(''pet'', JNum 2), (''owner'', JNum 9)]])
                (JObj [(''skipAllLifecycleCallbacks'', JBool True), (''fetch'', JBool False)])),
      Completed (CreateEach PetOwners
                (JArr [JObj [(''pet'', JNum 1), (''owner'', JNum 9)],
                       JObj [(''pet'', JNum 2), (''owner'', JNum 9)]])
                (JObj [(''skipAllLifecycleCallbacks'', JBool True), (''fetch'', JBool False)]))
                [],
      Handler []] \<and>
   leaves_as_is vet_patients_query = (None, vet_patients_query) \<and>
   resolveAssociation petstore vet_patients_query = Resolved Vet patients_attr Visit True \<and>
   q_targetRecordIds vet_patients_query = JArr [JNum 1] \<and>
   q_associatedIds vet_patients_query = JArr [JNum 2] \<and>
   joins_by_through Vet vet_patients_query Visit ''vet'' ''pet'' \<and>
   replaceCollection_handler leaves_as_is succeeds [] petstore vet_patients_query =
     [Issued (Destroy Visit
                (JObj [(''where'', JObj [(''vet'', JObj [(''in'', JArr [JNum 1])])])])
                (JObj [(''skipAllLifecycleCallbacks'', JBool True), (''fetch'', JBool False)])),
      Completed (Destroy Visit
                (JObj [(''where'', JObj [(''vet'', JObj [(''in'', JArr [JNum 1])])])])
                (JObj [(''skipAllLifecycleCallbacks'', JBool True), (''fetch'', JBool False)]))
                [],
      Issued (CreateEach Visit
                (JArr [JObj [(''vet'', JNum 1), (''pet'', JNum 2)]])
                (JObj [(''skipAllLifecycleCallbacks'', JBool True), (''fetch'', JBool False)])),
      Completed (CreateEach Visit
                (JArr [JObj [(''vet'', JNum 1), (''pet'', JNum 2)]])
                (JObj [(''skipAllLifecycleCallbacks'', JBool True), (''fetch'', JBool False)]))
                [],
      Handler []]"
proof -
  have h1: "leaves_as_is pet_owners_query = (None, pet_owners_query)"
    by (simp add: leaves_as_is_def)
  have h2: "resolveAssociation petstore pet_owners_query = Resolved Pet owners_attr PetOwners True"
    unfolding pet_owners_query_def by (rule resolve_pet_owners)
  have h3: "q_targetRecordIds pet_owners_query = JArr [JNum 1, JNum 2]"
    by (simp add: store_defs)
  have h4: "[JNum 1, JNum 2] \<noteq> []" by simp
  have h5: "q_associatedIds pet_owners_query = JArr [JNum 9]"
    by (simp add: store_defs)
  have h6: "[JNum 9] \<noteq> []" by simp
  have m: "replaceCollection_modifiedMeta pet_owners_query =
             [(''skipAllLifecycleCallbacks'', JBool True)]"
    by (simp add: replaceCollection_modifiedMeta_def lodash_extend_one lodash_extend_empty
          js_or_def store_defs)
  have g1: "leaves_as_is vet_patients_query = (None, vet_patients_query)"
    by (simp add: leaves_as_is_def)
  note g2 = resolve_vet_patients
  have g3: "q_targetRecordIds vet_patients_query = JArr [JNum 1]"
    by (simp add: store_defs)
  have g4: "[JNum 1] \<noteq> []" by simp
  have g5: "q_associatedIds vet_patients_query = JArr [JNum 2]"
    by (simp add: store_defs)
  have g6: "[JNum 2] \<noteq> []" by simp
  have n: "replaceCollection_modifiedMeta vet_patients_query =
             [(''skipAllLifecycleCallbacks'', JBool True)]"
    by (simp add: replaceCollection_modifiedMeta_def lodash_extend_one lodash_extend_empty
          js_or_def store_defs)
  note junction = replaceCollection_manyToMany
         [of leaves_as_is pet_owners_query pet_owners_query petstore Pet owners_attr PetOwners
             "[JNum 1, JNum 2]" "[JNum 9]" succeeds "[]",
          OF h1 h2 h3 h4 h5 h6, unfolded Let_def]
  note through = replaceCollection_manyToMany
         [of leaves_as_is vet_patients_query vet_patients_query petstore Vet patients_attr Visit
             "[JNum 1]" "[JNum 2]" succeeds "[]",
          OF g1 g2 g3 g4 g5 g6, unfolded Let_def]
  from junction [THEN conjunct2, rule_format, of "''pet''" "''owner''"] joins_pet_owners
  have j: "key_of (fst (findReferences Pet pet_owners_query owners_attr PetOwners)) = ''pet''"
          "key_of (snd (findReferences Pet pet_owners_query owners_attr PetOwners)) = ''owner''"
    by (simp_all add: key_of_def)
  from through [THEN conjunct2, rule_format, of "''vet''" "''pet''"] joins_vet_patients
  have t: "key_of (fst (findReferences Vet vet_patients_query patients_attr Visit)) = ''vet''"
          "key_of (snd (findReferences Vet vet_patients_query patients_attr Visit)) = ''pet''"
    by (simp_all add: key_of_def)
  from junction [THEN conjunct1] have run1:
    "replaceCollection_handler leaves_as_is succeeds [] petstore pet_owners_query = 
     [Issued (Destroy PetOwners
                (JObj [(''where'', JObj [(''pet'', JObj [(''in'', JArr [JNum 1, JNum 2])])])])
                (JObj [(''skipAllLifecycleCallbacks'', JBool True), (''fetch'', JBool False)])),
      Completed (Destroy PetOwners
                (JObj [(''where'', JObj [(''pet'', JObj [(''in'', JArr [JNum 1, JNum 2])])])])
                (JObj [(''skipAllLifecycleCallbacks'', JBool True), (''fetch'', JBool False)]))
                [],
      Issued (CreateEach PetOwners
                (JArr [JObj [(''pet'', JNum 1), (''owner'', JNum 9)],
                       JObj [(''pet'', JNum 2), (''owner'', JNum 9)]])
                (JObj [(''skipAllLifecycleCallbacks'', JBool True), (''fetch'', JBool False)])),
      Completed (CreateEach PetOwners
                (JArr [JObj [(''pet'', JNum 1), (''owner'', JNum 9)],
                       JObj [(''pet'', JNum 2), (''owner'', JNum 9)]])
                (JObj [(''skipAllLifecycleCallbacks'', JBool True), (''fetch'', JBool False)]))
                [],
      Handler []]"
    unfolding j m by (simp add: succeeds_def errOf_def)
  from through [THEN conjunct1] have run2:
    "replaceCollection_handler leaves_as_is succeeds [] petstore vet_patients_query =
     [Issued (Destroy Visit
                (JObj [(''where'', JObj [(''vet'', JObj [(''in'', JArr [JNum 1])])])])
                (JObj [(''skipAllLifecycleCallbacks'', JBool True), (''fetch'', JBool False)])),
      Completed (Destroy Visit
                (JObj [(''where'', JObj [(''vet'', JObj [(''in'', JArr [JNum 1])])])])
                (JObj [(''skipAllLifecycleCallbacks'', JBool True), (''fetch'', JBool False)]))
                [],
      Issued (CreateEach Visit
                (JArr [JObj [(''vet'', JNum 1), (''pet'', JNum 2)]])
                (JObj [(''skipAllLifecycleCallbacks'', JBool True), (''fetch'', JBool False)])),
      Completed (CreateEach Visit
                (JArr [JObj [(''vet'', JNum 1), (''pet'', JNum 2)]])
                (JObj [(''skipAllLifecycleCallbacks'', JBool True), (''fetch'', JBool False)]))
                [],
      Handler []]"
    unfolding t n by (simp add: succeeds_def errOf_def)
  from h1 h2 h3 h5 joins_pet_owners run1 g1 g2 g3 g5 joins_vet_patients run2
  show ?thesis by blast
qed

text \<open>
  C4. A one-to-many \<^verbatim>\<open>replaceCollection\<close>: the run starts with the single update
  that nulls out \<^verbatim>\<open>via\<close> on every child whose \<^verbatim>\<open>via\<close> is \<^verbatim>\<open>in\<close> the
  target record ids, and that update has called back before anything else happens.
  If it failed, the run ends with its error and no update of a pair is issued.
  Otherwise the updates of the pairs (each setting \<^verbatim>\<open>via\<close> to the target id on
  the child whose primary key is the associated id) are all issued next, none waiting
  for another to call back; then they call back in the order of the schedule, which
  may be any permutation of them.
\<close>

theorem replaceCollection_oneToMany_order:
  assumes "forge query = (None, q)"
    and "resolveAssociation orm q = Resolved WLModel schemaDef WLChild False"
  shows "let meta = JObj (replaceCollection_modifiedMeta q);
             via = key_of (ad_via schemaDef);
             nullOut = Update WLChild
                         (JObj [(''where'', JObj [(via, JObj [(''in'', q_targetRecordIds q)])])])
                         (JObj [(via, JNull)]) meta;
             pairs = map (\<lambda>(targetId, associatedId).
                            Update WLChild
                              (JObj [(''where'', JObj [(m_primaryKey WLChild, associatedId)])])
                              (JObj [(via, targetId)]) meta)
                         (List.product (each_values (q_targetRecordIds q))
                                       (each_values (q_associatedIds q)))
         in \<exists>rest. replaceCollection_handler forge w sched orm query =
                      Issued nullOut # Completed nullOut (w 0 nullOut) # rest \<and>
                    (truthy (errOf (w 0 nullOut)) \<longrightarrow>
                       rest = [Handler [errOf (w 0 nullOut)]]) \<and>
                    (\<not> truthy (errOf (w 0 nullOut)) \<and> distinct sched \<and>
                     set sched = {..< length pairs} \<longrightarrow>
                       (\<exists>post. rest = map Issued pairs @ post \<and>
                               issued_calls post = [] \<and>
                               completed_calls post =
                                 map (\<lambda>i. (pairs ! i, w (1 + i) (pairs ! i))) sched))"
proof -
  define meta where "meta = JObj (replaceCollection_modifiedMeta q)"
  define via where "via = key_of (ad_via schemaDef)"
  define nullOut where "nullOut =
     Update WLChild (JObj [(''where'', JObj [(via, JObj [(''in'', q_targetRecordIds q)])])])
            (JObj [(via, JNull)]) meta"
  define pairs where "pairs =
     map (\<lambda>(targetId, associatedId).
            Update WLChild (JObj [(''where'', JObj [(m_primaryKey WLChild, associatedId)])])
                   (JObj [(via, targetId)]) meta)
         (List.product (each_values (q_targetRecordIds q)) (each_values (q_associatedIds q)))"
  have run: "replaceCollection_handler forge w sched orm query =
               runOneToMany w sched q schemaDef WLChild (replaceCollection_modifiedMeta q)"
    using assms by (simp add: replaceCollection_handler_def)
  have n: "nullOutUpdate schemaDef WLChild q (replaceCollection_modifiedMeta q) = nullOut"
    by (simp add: nullOutUpdate_def nullOutCriteria_def nullOutValues_def nullOut_def via_def
          meta_def)
  have p: "pairUpdates schemaDef WLChild q (replaceCollection_modifiedMeta q) = pairs"
    by (simp add: pairUpdates_def updateQueries_def List.product_concat_map map_concat
          comp_def pairs_def via_def meta_def)
  define rest where "rest =
     (if truthy (errOf (w 0 nullOut)) then proceed (errOf (w 0 nullOut))
      else async_each w 1 sched pairs proceed)"
  have shape: "replaceCollection_handler forge w sched orm query =
                 Issued nullOut # Completed nullOut (w 0 nullOut) # rest"
    unfolding run runOneToMany_def n p rest_def by (simp add: Let_def)
  have failed: "truthy (errOf (w 0 nullOut)) \<longrightarrow> rest = [Handler [errOf (w 0 nullOut)]]"
    by (simp add: rest_def proceed_def)
  have fanout: "\<exists>post. rest = map Issued pairs @ post \<and> issued_calls post = [] \<and>
                  completed_calls post = map (\<lambda>i. (pairs ! i, w (1 + i) (pairs ! i))) sched"
    if ok: "\<not> truthy (errOf (w 0 nullOut))" and s: "set sched = {..< length pairs}"
  proof (cases "pairs = []")
    case True
    with s have "sched = []" by simp
    with True ok show ?thesis
      by (simp add: rest_def async_each_def)
  next
    case False
    let ?rs = "map (\<lambda>i. w (1 + i) (pairs ! i)) [0 ..< length pairs]"
    let ?post = "drain proceed pairs ?rs sched False 0"
    from s have bound: "\<forall>i \<in> set sched. i < length pairs" by simp
    have "completed_calls ?post = map (\<lambda>i. (pairs ! i, ?rs ! i)) sched"
      using drain_calls [OF bound] by blast
    also have "\<dots> = map (\<lambda>i. (pairs ! i, w (1 + i) (pairs ! i))) sched"
      using bound by simp
    finally have c: "completed_calls ?post =
                       map (\<lambda>i. (pairs ! i, w (1 + i) (pairs ! i))) sched" .
    have i: "issued_calls ?post = []"
      using drain_calls [OF bound] by blast
    from False ok have "rest = map Issued pairs @ ?post"
      by (simp add: rest_def async_each_def)
    with c i show ?thesis by blast
  qed
  from shape failed fanout
  have "\<exists>rest. replaceCollection_handler forge w sched orm query =
                  Issued nullOut # Completed nullOut (w 0 nullOut) # rest \<and>
                (truthy (errOf (w 0 nullOut)) \<longrightarrow> rest = [Handler [errOf (w 0 nullOut)]]) \<and>
                (\<not> truthy (errOf (w 0 nullOut)) \<and> distinct sched \<and>
                 set sched = {..< length pairs} \<longrightarrow>
                   (\<exists>post. rest = map Issued pairs @ post \<and>
                           issued_calls post = [] \<and>
                           completed_calls post =
                             map (\<lambda>i. (pairs ! i, w (1 + i) (pairs ! i))) sched))"
    by blast
  then show ?thesis
    unfolding Let_def pairs_def nullOut_def via_def meta_def .
qed

text \<open>
  The pets of owner 1 replaced by pets 5 and 6, the update of pet 6 calling back
  before that of pet 5.
\<close>

theorem replaceCollection_oneToMany_order_witness:
  "leaves_as_is owner_pets_query = (None, owner_pets_query) \<and>
   resolveAssociation petstore owner_pets_query = Resolved Owner pets_attr Pet False \<and>
   distinct [1, 0 :: nat] \<and>
   (\<exists>rest.
      replaceCollection_handler leaves_as_is succeeds [1, 0] petstore owner_pets_query =
        Issued (Update Pet
                  (JObj [(''where'', JObj [(''owner'', JObj [(''in'', JArr [JNum 1])])])])
                  (JObj [(''owner'', JNull)])
                  (JObj [(''skipAllLifecycleCallbacks'', JBool True)])) #
        Completed (Update Pet
                  (JObj [(''where'', JObj [(''owner'', JObj [(''in'', JArr [JNum 1])])])])
                  (JObj [(''owner'', JNull)])
                  (JObj [(''skipAllLifecycleCallbacks'', JBool True)])) [] #
        rest \<and>
      (\<exists>post.
         rest =
           [Issued (Update Pet (JObj [(''where'', JObj [(''id'', JNum 5)])])
                      (JObj [(''owner'', JNum 1)])
                      (JObj [(''skipAllLifecycleCallbacks'', JBool True)])),
            Issued (Update Pet (JObj [(''where'', JObj [(''id'', JNum 6)])])
                      (JObj [(''owner'', JNum 1)])
                      (JObj [(''skipAllLifecycleCallbacks'', JBool True)]))] @ post \<and>
         issued_calls post = [] \<and>
         completed_calls post =
           [(Update Pet (JObj [(''where'', JObj [(''id'', JNum 6)])])
               (JObj [(''owner'', JNum 1)])
               (JObj [(''skipAllLifecycleCallbacks'', JBool True)]), []),
            (Update Pet (JObj [(''where'', JObj [(''id'', JNum 5)])])
               (JObj [(''owner'', JNum 1)])
               (JObj [(''skipAllLifecycleCallbacks'', JBool True)]), [])]))"
proof -
  have h1: "leaves_as_is owner_pets_query = (None, owner_pets_query)"
    by (simp add: leaves_as_is_def)
  note h2 = resolve_owner_pets
  have m: "replaceCollection_modifiedMeta owner_pets_query =
             [(''skipAllLifecycleCallbacks'', JBool True)]"
    by (simp add: replaceCollection_modifiedMeta_def lodash_extend_one lodash_extend_empty
          js_or_def store_defs)
  have v: "key_of (ad_via pets_attr) = ''owner''" "m_primaryKey Pet = ''id''"
    "q_targetRecordIds owner_pets_query = JArr [JNum 1]"
    "q_associatedIds owner_pets_query = JArr [JNum 5, JNum 6]"
    by (simp_all add: key_of_def store_defs)
  have s: "{..<2} = {Suc 0, 0}" "{..<Suc (Suc 0)} = {Suc 0, 0}" by auto
  from replaceCollection_oneToMany_order
         [of leaves_as_is owner_pets_query owner_pets_query petstore Owner pets_attr Pet
             succeeds "[1, 0]", OF h1 h2]
  have "\<exists>rest.
      replaceCollection_handler leaves_as_is succeeds [1, 0] petstore owner_pets_query =
        Issued (Update Pet
                  (JObj [(''where'', JObj [(''owner'', JObj [(''in'', JArr [JNum 1])])])])
                  (JObj [(''owner'', JNull)])
                  (JObj [(''skipAllLifecycleCallbacks'', JBool True)])) #
        Completed (Update Pet
                  (JObj [(''where'', JObj [(''owner'', JObj [(''in'', JArr [JNum 1])])])])
                  (JObj [(''owner'', JNull)])
                  (JObj [(''skipAllLifecycleCallbacks'', JBool True)])) [] #
        rest \<and>
      (\<exists>post.
         rest =
           [Issued (Update Pet (JObj [(''where'', JObj [(''id'', JNum 5)])])
                      (JObj [(''owner'', JNum 1)])
                      (JObj [(''skipAllLifecycleCallbacks'', JBool True)])),
            Issued (Update Pet (JObj [(''where'', JObj [(''id'', JNum 6)])])
                      (JObj [(''owner'', JNum 1)])
                      (JObj [(''skipAllLifecycleCallbacks'', JBool True)]))] @ post \<and>
         issued_calls post = [] \<and>
         completed_calls post =
           [(Update Pet (JObj [(''where'', JObj [(''id'', JNum 6)])])
               (JObj [(''owner'', JNum 1)])
               (JObj [(''skipAllLifecycleCallbacks'', JBool True)]), []),
            (Update Pet (JObj [(''where'', JObj [(''id'', JNum 5)])])
               (JObj [(''owner'', JNum 1)])
               (JObj [(''skipAllLifecycleCallbacks'', JBool True)]), [])])"
    by (simp add: Let_def m v s each_values_def succeeds_def errOf_def)
  with h1 h2 show ?thesis by simp
qed

text \<open>
  C5. Once stage two has returned and the association is resolved, for a schema entry
  that references the model its \<^verbatim>\<open>collection\<close> names or else a join model: the
  child is the referenced model, and the flag \<open>manyToMany\<close> is set if and only if the
  child carries a truthy \<^verbatim>\<open>junctionTable\<close> flag or a \<^verbatim>\<open>throughTable\<close> mapping
  with more than zero entries. With the flag set the expansion starts with the destroy
  on the child; in every other case it is one-to-many and starts with the update that
  nulls out the schema entry's \<^verbatim>\<open>via\<close> attribute.
\<close>

theorem replaceCollection_classification:
  assumes "forge query = (None, q)"
    and "resolveAssociation orm q = Resolved WLModel schemaDef WLChild manyToMany"
    and "references_collection_or_join_model orm schemaDef"
  shows "(\<exists>coll ri WLChild0.
            ad_collection schemaDef = Some coll \<and>
            ad_referenceIdentity schemaDef = Some ri \<and>
            collections orm coll = Some WLChild0 \<and>
            (if ri \<noteq> m_identity WLChild0 then collections orm ri = Some WLChild
             else WLChild = WLChild0)) \<and>
         (manyToMany \<longleftrightarrow> has_junctionTable WLChild \<or> has_throughTable_keys WLChild) \<and>
         (\<exists>rest. replaceCollection_handler forge w sched orm query =
            (if manyToMany then
               Issued (Destroy WLChild
                         (criteriaOfDestruction
                            (fst (findReferences WLModel q schemaDef WLChild)) q)
                         (JObj (oset (replaceCollection_modifiedMeta q) ''fetch'' (JBool False))))
               # rest
             else
               Issued (Update WLChild
                        (JObj [(''where'',
                                JObj [(key_of (ad_via schemaDef),
                                       JObj [(''in'', q_targetRecordIds q)])])])
                        (JObj [(key_of (ad_via schemaDef), JNull)])
                        (JObj (replaceCollection_modifiedMeta q)))
               # rest))"
proof -
  from assms(2) obtain coll ri WLChild0 where
    r: "ad_collection schemaDef = Some coll" "ad_referenceIdentity schemaDef = Some ri"
       "collections orm coll = Some WLChild0"
       "classify orm ri WLChild0 = Some (manyToMany, WLChild)"
    using resolveAssociation_Resolved by blast
  note c = classify_Some [OF r(4)]
  from c r(1-3) have first: "\<exists>coll ri WLChild0.
            ad_collection schemaDef = Some coll \<and>
            ad_referenceIdentity schemaDef = Some ri \<and>
            collections orm coll = Some WLChild0 \<and>
            (if ri \<noteq> m_identity WLChild0 then collections orm ri = Some WLChild
             else WLChild = WLChild0)"
    by blast
  have join: "has_junctionTable WLChild \<or> has_throughTable_keys WLChild"
    if "ri \<noteq> m_identity WLChild0"
    using assms(3) r(1-3) c that
    by (simp add: references_collection_or_join_model_def)
  with c have iff: "manyToMany \<longleftrightarrow> has_junctionTable WLChild \<or> has_throughTable_keys WLChild"
    by blast
  have second: "\<exists>rest. replaceCollection_handler forge w sched orm query =
            (if manyToMany then
               Issued (Destroy WLChild
                         (criteriaOfDestruction
                            (fst (findReferences WLModel q schemaDef WLChild)) q)
                         (JObj (oset (replaceCollection_modifiedMeta q) ''fetch'' (JBool False))))
               # rest
             else
               Issued (Update WLChild
                        (JObj [(''where'',
                                JObj [(key_of (ad_via schemaDef),
                                       JObj [(''in'', q_targetRecordIds q)])])])
                        (JObj [(key_of (ad_via schemaDef), JNull)])
                        (JObj (replaceCollection_modifiedMeta q)))
               # rest)"
    using assms(1,2)
    by (simp add: replaceCollection_handler_def runManyToMany_def
          runOneToMany_def nullOutUpdate_def nullOutCriteria_def nullOutValues_def Let_def)
  from first iff second show ?thesis by blast
qed

text \<open>
  The one-to-many association \<^verbatim>\<open>pets\<close> of \<^verbatim>\<open>owner\<close>: the child \<^verbatim>\<open>pet\<close> is
  no join model, the flag is not set, and the expansion starts by nulling out
  \<^verbatim>\<open>owner\<close> on the pets of owner 1. The association \<^verbatim>\<open>patients\<close> of \<^verbatim>\<open>vet\<close>,
  whose schema entry names \<^verbatim>\<open>pet\<close> as its collection and references \<^verbatim>\<open>visit\<close>:
  the child is \<^verbatim>\<open>visit\<close>, which carries a through-table mapping, the flag is set,
  and the expansion starts with the destroy of the visits of vet 1.
\<close>

theorem replaceCollection_classification_witness:
  "leaves_as_is owner_pets_query = (None, owner_pets_query) \<and>
   resolveAssociation petstore owner_pets_query = Resolved Owner pets_attr Pet False \<and>
   references_collection_or_join_model petstore pets_attr \<and>
   \<not> has_junctionTable Pet \<and> \<not> has_throughTable_keys Pet \<and>
   (\<exists>rest. replaceCollection_handler leaves_as_is succeeds [0, 1] petstore owner_pets_query =
      Issued (Update Pet
               (JObj [(''where'', JObj [(''owner'', JObj [(''in'', JArr [JNum 1])])])])
               (JObj [(''owner'', JNull)])
               (JObj [(''skipAllLifecycleCallbacks'', JBool True)]))
      # rest) \<and>
   leaves_as_is vet_patients_query = (None, vet_patients_query) \<and>
   resolveAssociation petstore vet_patients_query = Resolved Vet patients_attr Visit True \<and>
   references_collection_or_join_model petstore patients_attr \<and>
   ad_referenceIdentity patients_attr = Some ''visit'' \<and>
   collections petstore ''visit'' = Some Visit \<and>
   has_throughTable_keys Visit \<and>
   (\<exists>rest. replaceCollection_handler leaves_as_is succeeds [] petstore vet_patients_query =
      Issued (Destroy Visit
               (JObj [(''where'', JObj [(''vet'', JObj [(''in'', JArr [JNum 1])])])])
               (JObj [(''skipAllLifecycleCallbacks'', JBool True), (''fetch'', JBool False)]))
      # rest)"
proof -
  have h1: "leaves_as_is owner_pets_query = (None, owner_pets_query)"
    by (simp add: leaves_as_is_def)
  note h2 = resolve_owner_pets
  note one = replaceCollection_classification
            [of leaves_as_is owner_pets_query owner_pets_query petstore Owner pets_attr Pet
                False succeeds "[0, 1]", OF h1 h2 shape_owner_pets]
  from one have plain: "\<not> has_junctionTable Pet" "\<not> has_throughTable_keys Pet"
    by simp_all
  from one have "\<exists>rest. replaceCollection_handler leaves_as_is succeeds [0, 1] petstore owner_pets_query =
          Issued (Update Pet
                   (JObj [(''where'',
                           JObj [(key_of (ad_via pets_attr),
                                  JObj [(''in'', q_targetRecordIds owner_pets_query)])])])
                   (JObj [(key_of (ad_via pets_attr), JNull)])
                   (JObj (replaceCollection_modifiedMeta owner_pets_query)))
          # rest"
    by simp
  then have run1: "\<exists>rest. replaceCollection_handler leaves_as_is succeeds [0, 1] petstore owner_pets_query =
      Issued (Update Pet
               (JObj [(''where'', JObj [(''owner'', JObj [(''in'', JArr [JNum 1])])])])
               (JObj [(''owner'', JNull)])
               (JObj [(''skipAllLifecycleCallbacks'', JBool True)]))
      # rest"
    by (simp add: store_defs key_of_def replaceCollection_modifiedMeta_def lodash_extend_def
          own_entries_def js_or_def)
  have g1: "leaves_as_is vet_patients_query = (None, vet_patients_query)"
    by (simp add: leaves_as_is_def)
  note g2 = resolve_vet_patients
  note many = replaceCollection_classification
            [of leaves_as_is vet_patients_query vet_patients_query petstore Vet patients_attr Visit
                True succeeds "[]", OF g1 g2 shape_vet_patients]
  have v: "ad_referenceIdentity patients_attr = Some ''visit''"
      "collections petstore ''visit'' = Some Visit"
    by (simp_all add: store_defs)
  have through: "has_throughTable_keys Visit"
    by (simp add: has_throughTable_keys_def Visit_def)
  have refs: "findReferences Vet vet_patients_query patients_attr Visit = (Some ''vet'', Some ''pet'')"
    by (simp add: findReferences_def has_junctionTable_def store_defs)
  from many have "\<exists>rest. replaceCollection_handler leaves_as_is succeeds [] petstore vet_patients_query =
      Issued (Destroy Visit
                (criteriaOfDestruction
                   (fst (findReferences Vet vet_patients_query patients_attr Visit))
                   vet_patients_query)
                (JObj (oset (replaceCollection_modifiedMeta vet_patients_query) ''fetch'' (JBool False))))
      # rest"
    by simp
  then have run2: "\<exists>rest. replaceCollection_handler leaves_as_is succeeds [] petstore vet_patients_query =
      Issued (Destroy Visit
               (JObj [(''where'', JObj [(''vet'', JObj [(''in'', JArr [JNum 1])])])])
               (JObj [(''skipAllLifecycleCallbacks'', JBool True), (''fetch'', JBool False)]))
      # rest"
    by (simp add: refs criteriaOfDestruction_def key_of_def replaceCollection_modifiedMeta_def
          lodash_extend_def own_entries_def js_or_def)
       (simp add: store_defs)
  from h1 h2 shape_owner_pets plain run1 g1 g2 shape_vet_patients v through run2
  show ?thesis by blast
qed

text \<open>
  C6. A \<^verbatim>\<open>replaceCollection\<close> whose list of target record ids is empty: stage
  two (as the specification describes it) throws \<^verbatim>\<open>E_NOOP\<close>, and the run is the
  single call \<^verbatim>\<open>done()\<close>, with no error and no result; no operation is issued. A
  many-to-many \<^verbatim>\<open>replaceCollection\<close> whose list of associated ids, as stage two
  leaves it, is empty: the destroy of the join rows of the target records is issued,
  and once it has called back the run ends (with its error if it failed); no insert is
  issued.
\<close>

theorem replaceCollection_empty_lists:
  "(q_method query = ''replaceCollection'' \<and> q_targetRecordIds query = JArr [] \<longrightarrow>
      (\<exists>e q. forgeStageTwoQuery orm query = (Some e, q) \<and> oget e ''code'' = JStr ''E_NOOP'') \<and>
      replaceCollection_handler (forgeStageTwoQuery orm) w sched orm query = [Handler []]) \<and>
   (forge query = (None, q) \<and>
    resolveAssociation orm q = Resolved WLModel schemaDef WLChild True \<and>
    q_associatedIds q = JArr [] \<longrightarrow>
      (let destroy = Destroy WLChild
                       (JObj [(''where'',
                               JObj [(key_of (fst (findReferences WLModel q schemaDef WLChild)),
                                      JObj [(''in'', q_targetRecordIds q)])])])
                       (JObj (oset (replaceCollection_modifiedMeta q) ''fetch'' (JBool False)))
       in replaceCollection_handler forge w sched orm query =
            (if truthy (errOf (w 0 destroy)) then
               [Issued destroy, Completed destroy (w 0 destroy), Handler [errOf (w 0 destroy)]]
             else [Issued destroy, Completed destroy (w 0 destroy), Handler []])))"
proof (intro conjI impI)
  assume a: "q_method query = ''replaceCollection'' \<and> q_targetRecordIds query = JArr []"
  then have f: "forgeStageTwoQuery orm query =
           (Some (forge_error ''E_NOOP'' ''No target record ids were provided.''), query)"
    by (simp add: forge_empty_targets)
  have c: "oget (forge_error ''E_NOOP'' ''No target record ids were provided.'') ''code'' =
             JStr ''E_NOOP''"
    by (simp add: forge_error_def oget_def)
  from f c show "\<exists>e q. forgeStageTwoQuery orm query = (Some e, q) \<and>
                       oget e ''code'' = JStr ''E_NOOP''"
    by blast
  from f c show "replaceCollection_handler (forgeStageTwoQuery orm) w sched orm query =
                   [Handler []]"
    by (simp add: replaceCollection_handler_def replaceCollection_catch_def Let_def)
next
  assume b: "forge query = (None, q) \<and>
    resolveAssociation orm q = Resolved WLModel schemaDef WLChild True \<and>
    q_associatedIds q = JArr []"
  then have run: "replaceCollection_handler forge w sched orm query =
               runManyToMany w WLModel q schemaDef WLChild (replaceCollection_modifiedMeta q)"
    by (simp add: replaceCollection_handler_def)
  from b have len: "js_get (q_associatedIds q) ''length'' = Some (JNum 0)"
    by (simp add: js_get_def)
  show "let destroy = Destroy WLChild
                       (JObj [(''where'',
                               JObj [(key_of (fst (findReferences WLModel q schemaDef WLChild)),
                                      JObj [(''in'', q_targetRecordIds q)])])])
                       (JObj (oset (replaceCollection_modifiedMeta q) ''fetch'' (JBool False)))
       in replaceCollection_handler forge w sched orm query =
            (if truthy (errOf (w 0 destroy)) then
               [Issued destroy, Completed destroy (w 0 destroy), Handler [errOf (w 0 destroy)]]
             else [Issued destroy, Completed destroy (w 0 destroy), Handler []])"
    unfolding run runManyToMany_def
    using len by (simp add: Let_def criteriaOfDestruction_def proceed_def)
qed

text \<open>
  \<^verbatim>\<open>replaceCollection([], 'owners', [9])\<close> does nothing;
  \<^verbatim>\<open>replaceCollection([1,2], 'owners', [])\<close> destroys the rows of pets 1 and 2
  and inserts none.
\<close>

theorem replaceCollection_empty_lists_witness:
  "q_method no_targets_query = ''replaceCollection'' \<and>
   q_targetRecordIds no_targets_query = JArr [] \<and>
   (\<exists>e q. forgeStageTwoQuery petstore no_targets_query = (Some e, q) \<and>
          oget e ''code'' = JStr ''E_NOOP'') \<and>
   replaceCollection_handler (forgeStageTwoQuery petstore) succeeds [] petstore
     no_targets_query = [Handler []] \<and>
   leaves_as_is clear_owners_query = (None, clear_owners_query) \<and>
   resolveAssociation petstore clear_owners_query = Resolved Pet owners_attr PetOwners True \<and>
   q_associatedIds clear_owners_query = JArr [] \<and>
   replaceCollection_handler leaves_as_is succeeds [] petstore clear_owners_query =
     [Issued (Destroy PetOwners
                (JObj [(''where'', JObj [(''pet'', JObj [(''in'', JArr [JNum 1, JNum 2])])])])
                (JObj [(''skipAllLifecycleCallbacks'', JBool True), (''fetch'', JBool False)])),
      Completed (Destroy PetOwners
                (JObj [(''where'', JObj [(''pet'', JObj [(''in'', JArr [JNum 1, JNum 2])])])])
                (JObj [(''skipAllLifecycleCallbacks'', JBool True), (''fetch'', JBool False)]))
                [],
      Handler []]"
proof -
  have a: "q_method no_targets_query = ''replaceCollection'' \<and>
           q_targetRecordIds no_targets_query = JArr []"
    by (simp add: store_defs)
  have b1: "leaves_as_is clear_owners_query = (None, clear_owners_query)"
    by (simp add: leaves_as_is_def)
  have b2: "resolveAssociation petstore clear_owners_query =
              Resolved Pet owners_attr PetOwners True"
    unfolding clear_owners_query_def by (rule resolve_pet_owners)
  have b3: "q_associatedIds clear_owners_query = JArr []"
    by (simp add: store_defs)
  have r: "findReferences Pet clear_owners_query owners_attr PetOwners =
             (Some ''pet'', Some ''owner'')"
    unfolding clear_owners_query_def by (rule references_pet_owners)
  have m: "replaceCollection_modifiedMeta clear_owners_query =
             [(''skipAllLifecycleCallbacks'', JBool True)]"
    by (simp add: replaceCollection_modifiedMeta_def lodash_extend_one lodash_extend_empty
          js_or_def store_defs)
  have t: "q_targetRecordIds clear_owners_query = JArr [JNum 1, JNum 2]"
    by (simp add: store_defs)
  note first = replaceCollection_empty_lists
                 [of no_targets_query petstore succeeds "[]" leaves_as_is no_targets_query,
                  THEN conjunct1, rule_format, OF a]
  note second = replaceCollection_empty_lists
                  [of clear_owners_query petstore succeeds "[]" leaves_as_is
                      clear_owners_query Pet owners_attr PetOwners,
                   THEN conjunct2, rule_format, OF conjI [OF b1 conjI [OF b2 b3]]]
  from second have "replaceCollection_handler leaves_as_is succeeds [] petstore
      clear_owners_query =
     [Issued (Destroy PetOwners
                (JObj [(''where'', JObj [(''pet'', JObj [(''in'', JArr [JNum 1, JNum 2])])])])
                (JObj [(''skipAllLifecycleCallbacks'', JBool True), (''fetch'', JBool False)])),
      Completed (Destroy PetOwners
                (JObj [(''where'', JObj [(''pet'', JObj [(''in'', JArr [JNum 1, JNum 2])])])])
                (JObj [(''skipAllLifecycleCallbacks'', JBool True), (''fetch'', JBool False)]))
                [],
      Handler []]"
    by (simp add: Let_def r m t key_of_def succeeds_def errOf_def)
  with first a b1 b2 b3 show ?thesis by simp
qed

text \<open>
  C7. Whatever stage two returns or throws, whatever the caller's \<^verbatim>\<open>meta\<close>, the
  shape of the association, the answers of the environment and the schedule: every
  operation that a run of \<^verbatim>\<open>replaceCollection\<close> issues carries a \<^verbatim>\<open>meta\<close>
  dictionary in which \<^verbatim>\<open>skipAllLifecycleCallbacks\<close> is \<^verbatim>\<open>true\<close>.
\<close>

theorem replaceCollection_skips_lifecycle_callbacks:
  "\<forall>c. Issued c \<in> set (replaceCollection_handler forge w sched orm query) \<longrightarrow>
       (\<exists>meta. call_meta c = JObj meta \<and>
               oget meta ''skipAllLifecycleCallbacks'' = JBool True)"
proof (intro allI impI)
  fix c
  assume issued: "Issued c \<in> set (replaceCollection_handler forge w sched orm query)"
  obtain thrown q where f: "forge query = (thrown, q)"
    by (cases "forge query")
  show "\<exists>meta. call_meta c = JObj meta \<and> oget meta ''skipAllLifecycleCallbacks'' = JBool True"
  proof (cases thrown)
    case (Some e)
    with issued f show ?thesis
      by (simp add: replaceCollection_handler_def Issued_catch)
  next
    case None
    show ?thesis
    proof (cases "resolveAssociation orm q")
      case (ProceedErr e)
      with issued f None show ?thesis
        by (simp add: replaceCollection_handler_def Issued_proceed)
    next
      case (Thrown e)
      with issued f None show ?thesis
        by (simp add: replaceCollection_handler_def)
    next
      case (Resolved WLModel schemaDef WLChild manyToMany)
      show ?thesis
      proof (cases manyToMany)
        case True
        with issued f None Resolved
        have "call_meta c = JObj (oset (replaceCollection_modifiedMeta q) ''fetch'' (JBool False))"
          by (simp add: replaceCollection_handler_def Issued_runManyToMany)
        then show ?thesis
          by (simp add: oget_oset_other skips_modifiedMeta)
      next
        case False
        with issued f None Resolved
        have "call_meta c = JObj (replaceCollection_modifiedMeta q)"
          by (simp add: replaceCollection_handler_def Issued_runOneToMany)
        then show ?thesis
          by (simp add: skips_modifiedMeta)
      qed
    qed
  qed
qed

text \<open>
  A caller who passes \<^verbatim>\<open>skipAllLifecycleCallbacks: false\<close> and \<^verbatim>\<open>fetch: true\<close>:
  the destroy is issued with both overwritten.
\<close>

theorem replaceCollection_skips_lifecycle_callbacks_witness:
  "Issued (Destroy PetOwners
             (JObj [(''where'', JObj [(''pet'', JObj [(''in'', JArr [JNum 1, JNum 2])])])])
             (JObj [(''skipAllLifecycleCallbacks'', JBool True), (''fetch'', JBool False)]))
     \<in> set (replaceCollection_handler leaves_as_is succeeds [] petstore eager_owners_query) \<and>
   (\<exists>meta. call_meta (Destroy PetOwners
             (JObj [(''where'', JObj [(''pet'', JObj [(''in'', JArr [JNum 1, JNum 2])])])])
             (JObj [(''skipAllLifecycleCallbacks'', JBool True), (''fetch'', JBool False)]))
             = JObj meta \<and>
           oget meta ''skipAllLifecycleCallbacks'' = JBool True)"
proof -
  have r: "resolveAssociation petstore eager_owners_query =
             Resolved Pet owners_attr PetOwners True"
    by (simp add: resolveAssociation_def store_defs toLowerCase_store classify_def
          has_junctionTable_def has_throughTable_keys_def)
  have m: "replaceCollection_modifiedMeta eager_owners_query =
             [(''skipAllLifecycleCallbacks'', JBool True), (''fetch'', JBool True)]"
    by (simp add: replaceCollection_modifiedMeta_def lodash_extend_def own_entries_def
          js_or_def store_defs)
  have f: "findReferences Pet eager_owners_query owners_attr PetOwners =
             (Some ''pet'', Some ''owner'')"
    by (simp add: findReferences_def has_junctionTable_def last_key_where_def store_defs)
  have issued: "Issued (Destroy PetOwners
             (JObj [(''where'', JObj [(''pet'', JObj [(''in'', JArr [JNum 1, JNum 2])])])])
             (JObj [(''skipAllLifecycleCallbacks'', JBool True), (''fetch'', JBool False)]))
     \<in> set (replaceCollection_handler leaves_as_is succeeds [] petstore eager_owners_query)"
    by (simp add: replaceCollection_handler_def leaves_as_is_def r runManyToMany_def Let_def
          m f criteriaOfDestruction_def key_of_def)
       (simp add: store_defs)
  from replaceCollection_skips_lifecycle_callbacks [rule_format, OF issued] issued
  show ?thesis by blast
qed

section \<open>Properties of find, count and findOrCreate\<close>

text \<open>
  C2. When stage two throws \<^verbatim>\<open>E_NOOP\<close> (the criteria are the canonical no-op),
  the run of \<^verbatim>\<open>find\<close> is the single call \<^verbatim>\<open>done(undefined, [])\<close> and the run of
  \<^verbatim>\<open>count\<close> the single call \<^verbatim>\<open>done(undefined, 0)\<close>: stage three is not
  forged, and neither \<^verbatim>\<open>helpFind\<close> nor any adapter method is invoked.
\<close>

theorem noop_criteria_short_circuit:
  assumes "forge query = (Some e, q)"
    and "oget e ''code'' = JStr ''E_NOOP''"
  shows "find_handler forge w processAllRecords WLModel query = [Handler [JUndefined, JArr []]] \<and>
         count_handler forge forgeStageThreeQuery forgeAdapterError w WLModel query =
           [Handler [JUndefined, JNum 0]]"
  using assms
  by (simp add: find_handler_def find_catch_def count_handler_def count_catch_def Let_def)

theorem noop_criteria_short_circuit_witness:
  "reports_noop noop_query = (Some [(''code'', JStr ''E_NOOP'')], noop_query) \<and>
   oget [(''code'', JStr ''E_NOOP'')] ''code'' = JStr ''E_NOOP'' \<and>
   find_handler reports_noop succeeds accepts_records Pet noop_query =
     [Handler [JUndefined, JArr []]] \<and>
   count_handler reports_noop binds_as_is same_error succeeds Pet noop_query =
     [Handler [JUndefined, JNum 0]]"
proof -
  have h1: "reports_noop noop_query = (Some [(''code'', JStr ''E_NOOP'')], noop_query)"
    by (simp add: reports_noop_def)
  have h2: "oget [(''code'', JStr ''E_NOOP'')] ''code'' = JStr ''E_NOOP''"
    by (simp add: oget_def)
  from noop_criteria_short_circuit [of reports_noop noop_query, OF h1 h2] h1 h2
  show ?thesis by blast
qed

text \<open>
  C3. A \<^verbatim>\<open>findOrCreate\<close> whose query stage two accepts, its criteria and its new
  record being dictionaries: the \<^verbatim>\<open>findOne\<close> is issued with the criteria less
  their \<^verbatim>\<open>limit\<close>, \<^verbatim>\<open>skip\<close> and \<^verbatim>\<open>sort\<close>. If it calls back without an
  error and with a record, the handler receives \<^verbatim>\<open>(undefined, record, false)\<close> and
  no create is issued. If it calls back without an error and without a record, the
  create of the new record is issued, the primary key deleted from that record when
  its value is \<^verbatim>\<open>null\<close>; the handler then receives
  \<^verbatim>\<open>(undefined, createdRecord, true)\<close>, or the error of a create that failed.
\<close>

theorem findOrCreate_found_or_created:
  assumes "forge query = (None, q)"
    and "q_criteria q = JObj criteria"
    and "q_newRecord q = JObj newRecord"
  shows "let findOne = FindOne WLModel
                         (JObj (odelete (odelete (odelete criteria ''limit'') ''skip'') ''sort''))
                         (q_meta q);
             create = Create WLModel
                        (JObj (if oget newRecord (m_primaryKey WLModel) = JNull
                               then odelete newRecord (m_primaryKey WLModel) else newRecord))
                        (JObj (findOrCreate_modifiedMeta q))
         in \<not> truthy (errOf (w 0 findOne)) \<longrightarrow>
            findOrCreate_handler forge w WLModel query =
              (if truthy (resultOf (w 0 findOne)) then
                 [Issued findOne, Completed findOne (w 0 findOne),
                  Handler [JUndefined, resultOf (w 0 findOne), JBool False]]
               else if truthy (errOf (w 1 create)) then
                 [Issued findOne, Completed findOne (w 0 findOne),
                  Issued create, Completed create (w 1 create),
                  Handler [errOf (w 1 create)]]
               else
                 [Issued findOne, Completed findOne (w 0 findOne),
                  Issued create, Completed create (w 1 create),
                  Handler [JUndefined, resultOf (w 1 create), JBool True]])"
proof -
  have "findOrCreate_handler forge w WLModel query = findOrCreate_run w WLModel q"
    using assms(1) by (simp add: findOrCreate_handler_def)
  then show ?thesis
    using assms(3)
    by (simp add: findOrCreate_run_dictionary [OF assms(2) refl] js_get_def js_delete_def
          Let_def)
qed

text \<open>
  Looking for a pet called Rex: where it is found, it is handed back with
  \<^verbatim>\<open>false\<close>; where it is not, it is created without its \<^verbatim>\<open>null\<close> id and
  handed back with \<^verbatim>\<open>true\<close>.
\<close>

theorem findOrCreate_found_or_created_witness:
  "leaves_as_is rex_query = (None, rex_query) \<and>
   findOrCreate_handler leaves_as_is (finds rex) Pet rex_query =
     [Issued (FindOne Pet (JObj [(''where'', JObj [(''name'', JStr ''Rex'')])]) JUndefined),
      Completed (FindOne Pet (JObj [(''where'', JObj [(''name'', JStr ''Rex'')])]) JUndefined)
                [JUndefined, rex],
      Handler [JUndefined, rex, JBool False]] \<and>
   findOrCreate_handler leaves_as_is (creates rex) Pet rex_query =
     [Issued (FindOne Pet (JObj [(''where'', JObj [(''name'', JStr ''Rex'')])]) JUndefined),
      Completed (FindOne Pet (JObj [(''where'', JObj [(''name'', JStr ''Rex'')])]) JUndefined)
                [],
      Issued (Create Pet (JObj [(''name'', JStr ''Rex'')]) (JObj [(''fetch'', JBool True)])),
      Completed (Create Pet (JObj [(''name'', JStr ''Rex'')]) (JObj [(''fetch'', JBool True)]))
                [JUndefined, rex],
      Handler [JUndefined, rex, JBool True]]"
proof -
  have h1: "leaves_as_is rex_query = (None, rex_query)"
    by (simp add: leaves_as_is_def)
  have h2: "q_criteria rex_query =
              JObj [(''where'', JObj [(''name'', JStr ''Rex'')]),
                    (''limit'', JNum 9007199254740991), (''skip'', JNum 0), (''sort'', JArr [])]"
    by (simp add: rex_query_def new_query_def)
  have h3: "q_newRecord rex_query = JObj [(''id'', JNull), (''name'', JStr ''Rex'')]"
    by (simp add: rex_query_def new_query_def)
  have m: "findOrCreate_modifiedMeta rex_query = [(''fetch'', JBool True)]"
      "q_meta rex_query = JUndefined"
    by (simp_all add: findOrCreate_modifiedMeta_def lodash_extend_one lodash_extend_empty
          js_or_def rex_query_def new_query_def)
  have t: "truthy rex" by (simp add: rex_def)
  note found = findOrCreate_found_or_created
                 [of leaves_as_is rex_query rex_query _ _ Pet "finds rex", OF h1 h2 h3]
  note made = findOrCreate_found_or_created
                [of leaves_as_is rex_query rex_query _ _ Pet "creates rex", OF h1 h2 h3]
  from found t have "findOrCreate_handler leaves_as_is (finds rex) Pet rex_query =
     [Issued (FindOne Pet (JObj [(''where'', JObj [(''name'', JStr ''Rex'')])]) JUndefined),
      Completed (FindOne Pet (JObj [(''where'', JObj [(''name'', JStr ''Rex'')])]) JUndefined)
                [JUndefined, rex],
      Handler [JUndefined, rex, JBool False]]"
    by (simp add: Let_def m odelete_def finds_def errOf_def resultOf_def)
  moreover
  from made have "findOrCreate_handler leaves_as_is (creates rex) Pet rex_query =
     [Issued (FindOne Pet (JObj [(''where'', JObj [(''name'', JStr ''Rex'')])]) JUndefined),
      Completed (FindOne Pet (JObj [(''where'', JObj [(''name'', JStr ''Rex'')])]) JUndefined)
                [],
      Issued (Create Pet (JObj [(''name'', JStr ''Rex'')]) (JObj [(''fetch'', JBool True)])),
      Completed (Create Pet (JObj [(''name'', JStr ''Rex'')]) (JObj [(''fetch'', JBool True)]))
                [JUndefined, rex],
      Handler [JUndefined, rex, JBool True]]"
    by (simp add: Let_def m odelete_def oget_def creates_def errOf_def resultOf_def Pet_def)
  ultimately show ?thesis using h1 by simp
qed

text \<open>
  C8. A \<^verbatim>\<open>find\<close> or \<^verbatim>\<open>count\<close> whose \<^verbatim>\<open>where\<close> clause names an attribute
  that the model does not have: stage two (as the specification describes it) throws
  an error with the code \<^verbatim>\<open>E_INVALID_CRITERIA\<close>, and the run is the single call of
  \<^verbatim>\<open>done\<close> with an error (a usage error made from its details for \<^verbatim>\<open>find\<close>, the
  error itself for \<^verbatim>\<open>count\<close>): stage three is not forged, and neither
  \<^verbatim>\<open>helpFind\<close> nor any adapter method is invoked.
\<close>

theorem misspelled_attribute_stops_at_stage_two:
  assumes "q_method query = ''find'' \<or> q_method query = ''count''"
    and "collections orm (q_using query) = Some M"
    and "a \<in> set (where_attrs (where_of (q_criteria query)))"
    and "a \<notin> set (map fst (m_schema M))"
  shows "\<exists>e. forgeStageTwoQuery orm query = (Some e, query) \<and>
             oget e ''code'' = JStr ''E_INVALID_CRITERIA'' \<and>
             find_handler (forgeStageTwoQuery orm) w processAllRecords WLModel query =
               [Handler [UsageError (''Invalid criteria.'' @ newline @ ''Details:'' @ newline @
                                     ''  '' @ js_string (oget e ''details'') @ newline)]] \<and>
             count_handler (forgeStageTwoQuery orm) forgeStageThreeQuery forgeAdapterError
                 w WLModel query =
               [Handler [JObj e]]"
proof -
  from forge_criteria_missing_attribute [OF assms(2-4)] obtain b where
    "forge_criteria orm query =
       (Some (forge_error ''E_INVALID_CRITERIA''
                (''Unrecognized attribute in where clause: '' @ b)), query)"
    by blast
  with assms(1) have f: "forgeStageTwoQuery orm query =
       (Some (forge_error ''E_INVALID_CRITERIA''
                (''Unrecognized attribute in where clause: '' @ b)), query)"
    by (auto simp: forgeStageTwoQuery_def)
  have c: "oget (forge_error ''E_INVALID_CRITERIA''
                   (''Unrecognized attribute in where clause: '' @ b)) ''code'' =
             JStr ''E_INVALID_CRITERIA''"
    by (simp add: forge_error_def oget_def)
  from invalid_criteria_stops [of "forgeStageTwoQuery orm", OF f c] f c
  show ?thesis by blast
qed

text \<open>Counting the pets whose \<^verbatim>\<open>nmae\<close> is Rex.\<close>

theorem misspelled_attribute_stops_at_stage_two_witness:
  "q_method misspelled_query = ''count'' \<and>
   collections petstore (q_using misspelled_query) = Some Pet \<and>
   ''nmae'' \<in> set (where_attrs (where_of (q_criteria misspelled_query))) \<and>
   ''nmae'' \<notin> set (map fst (m_schema Pet)) \<and>
   (\<exists>e. forgeStageTwoQuery petstore misspelled_query = (Some e, misspelled_query) \<and>
        oget e ''code'' = JStr ''E_INVALID_CRITERIA'' \<and>
        count_handler (forgeStageTwoQuery petstore) binds_as_is same_error succeeds Pet
            misspelled_query =
          [Handler [JObj e]])"
proof -
  have h1: "q_method misspelled_query = ''find'' \<or> q_method misspelled_query = ''count''"
    and h1': "q_method misspelled_query = ''count''"
    by (simp_all add: misspelled_query_def new_query_def)
  have h2: "collections petstore (q_using misspelled_query) = Some Pet"
    by (simp add: misspelled_query_def new_query_def petstore_def)
  have h3: "''nmae'' \<in> set (where_attrs (where_of (q_criteria misspelled_query)))"
    by (simp add: misspelled_query_def new_query_def where_of_def oget_def)
  have h4: "''nmae'' \<notin> set (map fst (m_schema Pet))"
    by (simp add: Pet_def)
  from misspelled_attribute_stops_at_stage_two
         [OF h1 h2 h3 h4, of succeeds accepts_records Pet binds_as_is same_error]
  have "\<exists>e. forgeStageTwoQuery petstore misspelled_query = (Some e, misspelled_query) \<and>
        oget e ''code'' = JStr ''E_INVALID_CRITERIA'' \<and>
        count_handler (forgeStageTwoQuery petstore) binds_as_is same_error succeeds Pet
            misspelled_query =
          [Handler [JObj e]]"
    by blast
  with h1' h2 h3 h4 show ?thesis by blast
qed

text \<open>
  C10. A \<^verbatim>\<open>findOrCreate\<close> whose criteria stage two reports as \<^verbatim>\<open>E_NOOP\<close>
  does not end there: a \<^verbatim>\<open>findOne\<close> is issued whose criteria are exactly
  \<^verbatim>\<open>{ where: { or: [] } }\<close>, with no \<^verbatim>\<open>limit\<close>, \<^verbatim>\<open>skip\<close> or \<^verbatim>\<open>sort\<close>.
  When that \<^verbatim>\<open>findOne\<close> calls back with no error and no record, as one that matches
  nothing does, the create of the new record follows, the primary key deleted from
  that record when its value is \<^verbatim>\<open>null\<close>; the handler receives
  \<^verbatim>\<open>(undefined, createdRecord, true)\<close>, or the error of a create that failed. The
  \<^verbatim>\<open>meta\<close> of the create is the caller's \<^verbatim>\<open>meta\<close> with \<^verbatim>\<open>fetch\<close> set to
  \<^verbatim>\<open>true\<close>: every other key is kept with its value, in its place, and a caller
  with no \<^verbatim>\<open>meta\<close> gives \<^verbatim>\<open>{ fetch: true }\<close>. The \<^verbatim>\<open>findOne\<close> carries the
  caller's \<^verbatim>\<open>meta\<close> as it is.
\<close>

theorem findOrCreate_noop_criteria:
  assumes "forge query = (Some e, q)"
    and "oget e ''code'' = JStr ''E_NOOP''"
    and "q_newRecord q = JObj newRecord"
  shows "let findOne = FindOne WLModel (JObj [(''where'', JObj [(''or'', JArr [])])]) (q_meta q);
             create = Create WLModel
                        (JObj (if oget newRecord (m_primaryKey WLModel) = JNull
                               then odelete newRecord (m_primaryKey WLModel) else newRecord))
                        (JObj (findOrCreate_modifiedMeta q))
         in oget (findOrCreate_modifiedMeta q) ''fetch'' = JBool True \<and>
            (\<not> truthy (q_meta q) \<longrightarrow> findOrCreate_modifiedMeta q = [(''fetch'', JBool True)]) \<and>
            (\<forall>meta. q_meta q = JObj meta \<and> distinct (map fst meta) \<longrightarrow>
               findOrCreate_modifiedMeta q = oset meta ''fetch'' (JBool True)) \<and>
            (\<exists>rest. findOrCreate_handler forge w WLModel query =
                      Issued findOne # Completed findOne (w 0 findOne) # rest) \<and>
            (\<not> truthy (errOf (w 0 findOne)) \<and> \<not> truthy (resultOf (w 0 findOne)) \<longrightarrow>
               findOrCreate_handler forge w WLModel query =
                 (if truthy (errOf (w 1 create)) then
                    [Issued findOne, Completed findOne (w 0 findOne),
                     Issued create, Completed create (w 1 create),
                     Handler [errOf (w 1 create)]]
                  else
                    [Issued findOne, Completed findOne (w 0 findOne),
                     Issued create, Completed create (w 1 create),
                     Handler [JUndefined, resultOf (w 1 create), JBool True]]))"
proof -
  let ?q = "q \<lparr> q_criteria := STD_NOOP_CRITERIA \<rparr>"
  have run: "findOrCreate_handler forge w WLModel query = findOrCreate_run w WLModel ?q"
    using assms(1,2) by (simp add: findOrCreate_handler_def Let_def)
  have c: "q_criteria ?q = JObj [(''where'', JObj [(''or'', JArr [])])]"
    by (simp add: STD_NOOP_CRITERIA_def)
  have d: "odelete (odelete (odelete [(''where'', JObj [(''or'', JArr [])])] ''limit'')
                            ''skip'') ''sort'' = [(''where'', JObj [(''or'', JArr [])])]"
    by (simp add: odelete_def)
  have m: "findOrCreate_modifiedMeta ?q = findOrCreate_modifiedMeta q"
    by (simp add: findOrCreate_modifiedMeta_def)
  have fetch: "oget (findOrCreate_modifiedMeta q) ''fetch'' = JBool True"
    by (simp add: findOrCreate_modifiedMeta_def lodash_extend_one oget_oset_same)
  have none: "findOrCreate_modifiedMeta q = [(''fetch'', JBool True)]" if "\<not> truthy (q_meta q)"
    using that
    by (simp add: findOrCreate_modifiedMeta_def js_or_def lodash_extend_one lodash_extend_empty)
  have kept: "findOrCreate_modifiedMeta q = oset meta ''fetch'' (JBool True)"
    if "q_meta q = JObj meta" "distinct (map fst meta)" for meta
    using that
    by (simp add: findOrCreate_modifiedMeta_def js_or_def lodash_extend_one lodash_extend_clone)
  show ?thesis
    unfolding run
    using assms(3) fetch none kept
    by (simp add: findOrCreate_run_dictionary [OF c refl] d m js_get_def js_delete_def Let_def)
qed

text \<open>
  Rex again, with a stage two that reports the criteria as a no-op: nothing is found,
  and Rex is created. A caller who passes \<^verbatim>\<open>fetch: false\<close> and
  \<^verbatim>\<open>skipAllLifecycleCallbacks: true\<close> has the first overwritten and the second kept
  in the create, and both as they are in the \<^verbatim>\<open>findOne\<close>.
\<close>

theorem findOrCreate_noop_criteria_witness:
  "reports_noop rex_query = (Some [(''code'', JStr ''E_NOOP'')], rex_query) \<and>
   oget [(''code'', JStr ''E_NOOP'')] ''code'' = JStr ''E_NOOP'' \<and>
   findOrCreate_handler reports_noop (creates rex) Pet rex_query =
     [Issued (FindOne Pet (JObj [(''where'', JObj [(''or'', JArr [])])]) JUndefined),
      Completed (FindOne Pet (JObj [(''where'', JObj [(''or'', JArr [])])]) JUndefined) [],
      Issued (Create Pet (JObj [(''name'', JStr ''Rex'')]) (JObj [(''fetch'', JBool True)])),
      Completed (Create Pet (JObj [(''name'', JStr ''Rex'')]) (JObj [(''fetch'', JBool True)]))
                [JUndefined, rex],
      Handler [JUndefined, rex, JBool True]] \<and>
   reports_noop fetching_rex_query = (Some [(''code'', JStr ''E_NOOP'')], fetching_rex_query) \<and>
   q_meta fetching_rex_query =
     JObj [(''fetch'', JBool False), (''skipAllLifecycleCallbacks'', JBool True)] \<and>
   findOrCreate_handler reports_noop (creates rex) Pet fetching_rex_query =
     [Issued (FindOne Pet (JObj [(''where'', JObj [(''or'', JArr [])])])
                (JObj [(''fetch'', JBool False), (''skipAllLifecycleCallbacks'', JBool True)])),
      Completed (FindOne Pet (JObj [(''where'', JObj [(''or'', JArr [])])])
                (JObj [(''fetch'', JBool False), (''skipAllLifecycleCallbacks'', JBool True)])) [],
      Issued (Create Pet (JObj [(''name'', JStr ''Rex'')])
                (JObj [(''fetch'', JBool True), (''skipAllLifecycleCallbacks'', JBool True)])),
      Completed (Create Pet (JObj [(''name'', JStr ''Rex'')])
                (JObj [(''fetch'', JBool True), (''skipAllLifecycleCallbacks'', JBool True)]))
                [JUndefined, rex],
      Handler [JUndefined, rex, JBool True]]"
proof -
  have h1: "reports_noop rex_query = (Some [(''code'', JStr ''E_NOOP'')], rex_query)"
    by (simp add: reports_noop_def)
  have h2: "oget [(''code'', JStr ''E_NOOP'')] ''code'' = JStr ''E_NOOP''"
    by (simp add: oget_def)
  have h3: "q_newRecord rex_query = JObj [(''id'', JNull), (''name'', JStr ''Rex'')]"
    by (simp add: rex_query_def new_query_def)
  have u: "q_meta rex_query = JUndefined"
    by (simp add: rex_query_def new_query_def)
  note plain = findOrCreate_noop_criteria
         [of reports_noop rex_query _ rex_query _ Pet "creates rex", OF h1 h2 h3,
          unfolded Let_def]
  from plain u have m: "findOrCreate_modifiedMeta rex_query = [(''fetch'', JBool True)]"
    by simp
  from plain
  have run1: "findOrCreate_handler reports_noop (creates rex) Pet rex_query =
     [Issued (FindOne Pet (JObj [(''where'', JObj [(''or'', JArr [])])]) JUndefined),
      Completed (FindOne Pet (JObj [(''where'', JObj [(''or'', JArr [])])]) JUndefined) [],
      Issued (Create Pet (JObj [(''name'', JStr ''Rex'')]) (JObj [(''fetch'', JBool True)])),
      Completed (Create Pet (JObj [(''name'', JStr ''Rex'')]) (JObj [(''fetch'', JBool True)]))
                [JUndefined, rex],
      Handler [JUndefined, rex, JBool True]]"
    by (simp add: m u odelete_def oget_def creates_def errOf_def resultOf_def Pet_def)
  have g1: "reports_noop fetching_rex_query =
              (Some [(''code'', JStr ''E_NOOP'')], fetching_rex_query)"
    by (simp add: reports_noop_def)
  have g3: "q_newRecord fetching_rex_query = JObj [(''id'', JNull), (''name'', JStr ''Rex'')]"
    by (simp add: fetching_rex_query_def rex_query_def new_query_def)
  have f: "q_meta fetching_rex_query =
             JObj [(''fetch'', JBool False), (''skipAllLifecycleCallbacks'', JBool True)]"
    by (simp add: fetching_rex_query_def)
  note fetching = findOrCreate_noop_criteria
         [of reports_noop fetching_rex_query _ fetching_rex_query _ Pet "creates rex",
          OF g1 h2 g3, unfolded Let_def]
  from fetching f
  have k: "findOrCreate_modifiedMeta fetching_rex_query =
             [(''fetch'', JBool True), (''skipAllLifecycleCallbacks'', JBool True)]"
    by simp
  from fetching
  have run2: "findOrCreate_handler reports_noop (creates rex) Pet fetching_rex_query =
     [Issued (FindOne Pet (JObj [(''where'', JObj [(''or'', JArr [])])])
                (JObj [(''fetch'', JBool False), (''skipAllLifecycleCallbacks'', JBool True)])),
      Completed (FindOne Pet (JObj [(''where'', JObj [(''or'', JArr [])])])
                (JObj [(''fetch'', JBool False), (''skipAllLifecycleCallbacks'', JBool True)])) [],
      Issued (Create Pet (JObj [(''name'', JStr ''Rex'')])
                (JObj [(''fetch'', JBool True), (''skipAllLifecycleCallbacks'', JBool True)])),
      Completed (Create Pet (JObj [(''name'', JStr ''Rex'')])
                (JObj [(''fetch'', JBool True), (''skipAllLifecycleCallbacks'', JBool True)]))
                [JUndefined, rex],
      Handler [JUndefined, rex, JBool True]]"
    by (simp add: k f odelete_def oget_def creates_def errOf_def resultOf_def Pet_def)
  from h1 h2 run1 g1 f run2 show ?thesis by blast
qed

section \<open>The arguments of replaceCollection\<close>

text \<open>
  Where a function is the third element of \<^verbatim>\<open>args\<close>, \<^verbatim>\<open>is3rdArgArray\<close>
  holds, since the function is not \<^verbatim>\<open>undefined\<close>: it is taken for the
  associated ids, and no explicit callback is found.
\<close>

lemma function_in_third_place:
  "replaceCollection_handleVariadicUsage
     [JArr [JNum 1, JNum 2], JStr ''owners'', JFn ''cb'']
     (new_query ''replaceCollection'' ''pet'') =
     ((new_query ''replaceCollection'' ''pet'')
        \<lparr> q_targetRecordIds := JArr [JNum 1, JNum 2],
          q_collectionAttrName := JStr ''owners'',
          q_associatedIds := JFn ''cb'' \<rparr>,
      JUndefined)"
  by (simp add: replaceCollection_handleVariadicUsage_def arg_def Let_def new_query_def)

text \<open>
  C9, at \<^verbatim>\<open>MethodReplaceCollection.execute(Pet, [1,2], 'owners', [9], cb)\<close>. The
  argument handling reads \<^verbatim>\<open>arguments\<close>, whose first element is the model: the
  model becomes the target record ids, the target record ids the collection attribute
  name, the attribute name the associated ids, the associated ids the explicit
  callback and the callback the meta. What is handed to \<^verbatim>\<open>parley\<close> as the explicit
  callback is the list \<^verbatim>\<open>[9]\<close>; \<^verbatim>\<open>cb\<close> is not run as the result handler.
  At \<^verbatim>\<open>execute(Pet, [1,2], 'owners', cb)\<close> the function is found as the explicit
  callback and the method runs at once, on a query whose target record ids are the
  model and whose associated ids are the attribute name.
\<close>

theorem replaceCollection_execute_misreads_arguments:
  "replaceCollection_handleVariadicUsage
     [JModel ''pet'', JArr [JNum 1, JNum 2], JStr ''owners'', JArr [JNum 9], JFn ''cb'']
     (new_query ''replaceCollection'' ''pet'') =
     ((new_query ''replaceCollection'' ''pet'')
        \<lparr> q_targetRecordIds := JModel ''pet'',
          q_collectionAttrName := JArr [JNum 1, JNum 2],
          q_associatedIds := JStr ''owners'',
          q_meta := JFn ''cb'' \<rparr>,
      JArr [JNum 9]) \<and>
   replaceCollection_execute forge w sched petstore Pet
     [JArr [JNum 1, JNum 2], JStr ''owners'', JArr [JNum 9], JFn ''cb''] =
     NotACallback (JArr [JNum 9]) \<and>
   replaceCollection_execute forge w sched petstore Pet
     [JArr [JNum 1, JNum 2], JStr ''owners'', JFn ''cb''] =
     RanNow ''cb''
       (replaceCollection_handler forge w sched petstore
          ((new_query ''replaceCollection'' ''pet'')
             \<lparr> q_targetRecordIds := JModel ''pet'',
               q_collectionAttrName := JArr [JNum 1, JNum 2],
               q_associatedIds := JStr ''owners'' \<rparr>))"
  by (simp add: replaceCollection_execute_def replaceCollection_handleVariadicUsage_def
        arg_def parley_def Let_def Pet_def new_query_def)

end
